theory Spec2Isabelle
  imports Complex_Main "HOL-Library.Char_ord" "HOL-Library.List_Lexorder"
begin

section \<open>Numbers and dictionaries\<close>

text \<open>
  The Python sources compute with IEEE doubles.  Finite values are modelled as exact
  \<^typ>\<open>real\<close> numbers, so rounding and overflow are outside the model; the special
  values that the sources can produce from finite data (NaN and the two infinities) are
  separate constructors of \<open>cell\<close> below, because \<open>dropna\<close> tells them apart.

  A Python \<open>dict\<close> is an association list in insertion order with distinct keys.
\<close>

type_synonym 'v dict = "(string \<times> 'v) list"

fun dict_set :: "string \<Rightarrow> 'v \<Rightarrow> 'v dict \<Rightarrow> 'v dict" where
  "dict_set k v [] = [(k, v)]"
| "dict_set k v ((k', v') # d) = (if k' = k then (k, v) # d else (k', v') # dict_set k v d)"

definition dict_del :: "string \<Rightarrow> 'v dict \<Rightarrow> 'v dict" where
  "dict_del k d = filter (\<lambda>(k', v). k' \<noteq> k) d"

definition dict_get :: "'v dict \<Rightarrow> string \<Rightarrow> 'v \<Rightarrow> 'v" where
  "dict_get d k dflt = (case map_of d k of None \<Rightarrow> dflt | Some v \<Rightarrow> v)"

definition dict_values :: "'v dict \<Rightarrow> 'v list" where
  "dict_values d = map snd d"

section \<open>Floating-point cells, series and frames\<close>

datatype cell = Num real | PosInf | NegInf | NaN

type_synonym column = "cell list"

text \<open>A pandas DataFrame: named columns of one common length, in column order.\<close>

type_synonym frame = "(string \<times> column) list"

definition nrows :: "frame \<Rightarrow> nat" where
  "nrows df = (case df of [] \<Rightarrow> 0 | (name, c) # rest \<Rightarrow> length c)"

definition frame_col :: "frame \<Rightarrow> string \<Rightarrow> column option" where
  "frame_col df name = map_of df name"

fun is_num :: "cell \<Rightarrow> bool" where
  "is_num (Num x) = True"
| "is_num c = False"

fun num_of :: "cell \<Rightarrow> real" where
  "num_of (Num x) = x"
| "num_of c = 0"

text \<open>\<open>numpy.mean\<close> and \<open>numpy.std\<close> (population standard deviation) of a non-empty
  list of finite values, and the pandas sample standard deviation (\<open>ddof = 1\<close>), which
  is NaN for fewer than two values.\<close>

definition mean :: "real list \<Rightarrow> real" where
  "mean xs = sum_list xs / real (length xs)"

definition np_std :: "real list \<Rightarrow> real" where
  "np_std xs = sqrt (sum_list (map (\<lambda>x. (x - mean xs)\<^sup>2) xs) / real (length xs))"

definition sample_std :: "real list \<Rightarrow> cell" where
  "sample_std xs =
     (if length xs < 2 then NaN
      else Num (sqrt (sum_list (map (\<lambda>x. (x - mean xs)\<^sup>2) xs) / real (length xs - 1))))"

definition series_mean :: "real list \<Rightarrow> cell" where
  "series_mean xs = (if xs = [] then NaN else Num (mean xs))"

definition series_max :: "real list \<Rightarrow> cell" where
  "series_max xs = (case xs of [] \<Rightarrow> NaN | x # rest \<Rightarrow> Num (fold max rest x))"

definition series_min :: "real list \<Rightarrow> cell" where
  "series_min xs = (case xs of [] \<Rightarrow> NaN | x # rest \<Rightarrow> Num (fold min rest x))"

text \<open>Python's \<open>round(x, 2)\<close>: to the nearest multiple of 0.01, ties to even.\<close>

definition round_half_even :: "real \<Rightarrow> int" where
  "round_half_even y =
     (let f = \<lfloor>y\<rfloor>; d = y - of_int f
      in if d < 1 / 2 then f else if 1 / 2 < d then f + 1 else if even f then f else f + 1)"

definition py_round2 :: "real \<Rightarrow> real" where
  "py_round2 x = of_int (round_half_even (x * 100)) / 100"

section \<open>Transactions\<close>

text \<open>
  A row of the table \<open>transactions\<close>.  The column \<open>date\<close> is a pandas timestamp,
  read through its \<open>dt\<close> accessors only, which are the fields here
  (\<open>ts_dayofweek\<close> is 0 on Mondays, \<open>ts_month\<close> runs from 1 to 12).  All fields are
  present (no NULL) and amounts are finite.
\<close>

record timestamp =
  ts_year :: nat
  ts_month :: nat
  ts_day :: nat
  ts_hour :: nat
  ts_dayofweek :: nat

record transaction =
  txn_id :: nat
  user_id :: nat
  date :: timestamp
  amount :: real
  category :: string
  merchant :: string
  payment_method :: string

section \<open>sklearn.preprocessing.StandardScaler\<close>

text \<open>
  The library's scaler, as documented: \<open>fit\<close> stores the mean and the population
  standard deviation of every column of the matrix it is given (a zero deviation is
  replaced by 1), \<open>transform\<close> subtracts the mean and divides by the scale.  A matrix
  is a list of rows of one common length.  Both operations raise \<open>ValueError\<close> on an
  empty matrix and on NaN or infinite entries; an exception is the value \<open>Inl\<close> of
  its message.
\<close>

record scaler_state =
  sc_mean :: "real list"
  sc_scale :: "real list"

definition column_of :: "real list list \<Rightarrow> nat \<Rightarrow> real list" where
  "column_of X j = map (\<lambda>r. r ! j) X"

definition scaler_fit :: "real list list \<Rightarrow> scaler_state" where
  "scaler_fit X =
     (let d = (case X of [] \<Rightarrow> 0 | r # rest \<Rightarrow> length r)
      in \<lparr>sc_mean = map (\<lambda>j. mean (column_of X j)) [0..<d],
          sc_scale = map (\<lambda>j. let s = np_std (column_of X j) in if s = 0 then 1 else s) [0..<d]\<rparr>)"

definition scaler_transform_row :: "scaler_state \<Rightarrow> real list \<Rightarrow> real list" where
  "scaler_transform_row sc r = map (\<lambda>(x, m, s). (x - m) / s) (zip r (zip (sc_mean sc) (sc_scale sc)))"

definition check_array :: "cell list list \<Rightarrow> string + real list list" where
  "check_array X =
     (if X = [] then Inl ''Found array with 0 sample(s)''
      else if list_ex (\<lambda>r. r = []) X then Inl ''Found array with 0 feature(s)''
      else if list_all (list_all is_num) X then Inr (map (map num_of) X)
      else Inl ''Input contains NaN or infinity'')"

definition scaler_fit_transform :: "cell list list \<Rightarrow> string + scaler_state \<times> real list list" where
  "scaler_fit_transform X =
     (case check_array X of
        Inl e \<Rightarrow> Inl e
      | Inr Xr \<Rightarrow> (let sc = scaler_fit Xr in Inr (sc, map (scaler_transform_row sc) Xr)))"

definition scaler_transform :: "scaler_state option \<Rightarrow> cell list list \<Rightarrow> string + real list list" where
  "scaler_transform sc X =
     (case sc of
        None \<Rightarrow> Inl ''This StandardScaler instance is not fitted yet''
      | Some st \<Rightarrow>
          (case check_array X of
             Inl e \<Rightarrow> Inl e
           | Inr Xr \<Rightarrow>
               if list_all (\<lambda>r. length r = length (sc_mean st)) Xr
               then Inr (map (scaler_transform_row st) Xr)
               else Inl ''X has a different number of features than the fitted scaler''))"

section \<open>expense\_predictor.py: ExpensePredictor\<close>

subsection \<open>Constructor: the ensemble weight table\<close>

text \<open>
  \<open>ExpensePredictor.__init__\<close>, lines 55 to 68.  The module-level flag
  \<open>HAS_XGBOOST\<close> (whether the optional import succeeded) is the argument.
\<close>

definition default_ensemble_weights :: "real dict" where
  "default_ensemble_weights =
     [(''linear'', 10 / 100),
      (''ridge'', 15 / 100),
      (''random_forest'', 25 / 100),
      (''gradient_boosting'', 25 / 100),
      (''xgboost'', 25 / 100)]"

definition init_ensemble_weights :: "bool \<Rightarrow> real dict" where
  "init_ensemble_weights has_xgboost =
     (if \<not> has_xgboost
      then dict_del ''xgboost''
             (dict_set ''random_forest'' (30 / 100)
               (dict_set ''gradient_boosting'' (35 / 100) default_ensemble_weights))
      else default_ensemble_weights)"

subsection \<open>engineer\_features and prepare\_data\<close>

text \<open>
  \<open>to_period('M')\<close>: a calendar month, identified by its ordinal, from which the
  year, month and quarter of the period are read back.
\<close>

definition year_month :: "transaction \<Rightarrow> nat" where
  "year_month t = ts_year (date t) * 12 + (ts_month (date t) - 1)"

text \<open>\<open>groupby('year_month')\<close>: one group per month present, in ascending order.\<close>

definition month_keys :: "transaction list \<Rightarrow> nat list" where
  "month_keys df = sort (remdups (map year_month df))"

definition month_amounts :: "transaction list \<Rightarrow> nat \<Rightarrow> real list" where
  "month_amounts df k = map amount (filter (\<lambda>t. year_month t = k) df)"

text \<open>\<open>Series.shift(k)\<close>, \<open>Series.rolling(window=w)\<close> (a window that is not full
  yields NaN) and \<open>Series.pct_change()\<close>, which is \<open>x / x.shift(1) - 1\<close> in
  floating point: a zero divisor gives an infinity, or NaN for \<open>0 / 0\<close>.\<close>

definition shift :: "nat \<Rightarrow> column \<Rightarrow> column" where
  "shift k c = replicate (min k (length c)) NaN @ take (length c - k) c"

definition rolling :: "nat \<Rightarrow> (real list \<Rightarrow> cell) \<Rightarrow> real list \<Rightarrow> column" where
  "rolling w f xs =
     map (\<lambda>i. if i + 1 < w then NaN else f (take w (drop (i + 1 - w) xs))) [0..<length xs]"

definition pct_step :: "real \<Rightarrow> cell \<Rightarrow> cell" where
  "pct_step x prev =
     (case prev of
        Num p \<Rightarrow> if p = 0 then (if x = 0 then NaN else if 0 < x then PosInf else NegInf)
                 else Num (x / p - 1)
      | PosInf \<Rightarrow> Num (- 1)
      | NegInf \<Rightarrow> Num (- 1)
      | NaN \<Rightarrow> NaN)"

definition pct_change :: "real list \<Rightarrow> column" where
  "pct_change xs = map (\<lambda>(x, prev). pct_step x prev) (zip xs (shift 1 (map Num xs)))"

text \<open>The decimal form of a one-digit number, the only numbers the column names are
  formatted from.\<close>

definition str_digit :: "nat \<Rightarrow> string" where
  "str_digit n = [''0123456789'' ! n]"

definition flag :: "bool \<Rightarrow> cell" where
  "flag b = Num (if b then 1 else 0)"

text \<open>The monthly frame before \<open>dropna\<close>, lines 100 to 138.\<close>

definition monthly_frame :: "transaction list \<Rightarrow> frame" where
  "monthly_frame df =
     (let keys = month_keys df;
          groups = map (month_amounts df) keys;
          total_amount = map sum_list groups;
          avg_amount = map mean groups;
          transaction_count = map (\<lambda>g. real (length g)) groups;
          months = map (\<lambda>k. k mod 12 + 1) keys;
          quarters = map (\<lambda>m. (m - 1) div 3 + 1) months;
          mom_growth = pct_change total_amount
      in [(''year_month'', map (\<lambda>k. Num (real k)) keys),
          (''total_amount'', map Num total_amount),
          (''avg_amount'', map Num avg_amount),
          (''transaction_count'', map Num transaction_count),
          (''std_amount'', map sample_std groups),
          (''max_amount'', map series_max groups),
          (''min_amount'', map series_min groups),
          (''num_transactions'', map Num transaction_count),
          (''date'', map (\<lambda>k. Num (real k)) keys),
          (''year'', map (\<lambda>k. Num (real (k div 12))) keys),
          (''month'', map (\<lambda>m. Num (real m)) months),
          (''quarter'', map (\<lambda>q. Num (real q)) quarters),
          (''is_q4'', map (\<lambda>q. flag (q = 4)) quarters),
          (''is_year_start'', map (\<lambda>m. flag (m \<le> 2)) months),
          (''is_year_end'', map (\<lambda>m. flag (11 \<le> m)) months)]
         @ map (\<lambda>lag. (''lag_'' @ str_digit lag, shift lag (map Num total_amount))) [1..<7]
         @ concat (map (\<lambda>w. [(''rolling_mean_'' @ str_digit w, rolling w series_mean total_amount),
                               (''rolling_std_'' @ str_digit w, rolling w sample_std total_amount),
                               (''rolling_max_'' @ str_digit w, rolling w series_max total_amount),
                               (''rolling_min_'' @ str_digit w, rolling w series_min total_amount)])
                     [2, 3, 6])
         @ [(''mom_growth'', mom_growth),
            (''mom_growth_lag1'', shift 1 mom_growth),
            (''avg_txn_lag1'', shift 1 (map Num avg_amount)),
            (''txn_count_lag1'', shift 1 (map Num transaction_count))])"

text \<open>\<open>DataFrame.dropna()\<close>: the rows without any NaN, in order.  Infinities are
  kept.\<close>

definition row_has_na :: "frame \<Rightarrow> nat \<Rightarrow> bool" where
  "row_has_na df i = list_ex (\<lambda>(name, c). c ! i = NaN) df"

definition dropna :: "frame \<Rightarrow> frame" where
  "dropna df =
     (let keep = filter (\<lambda>i. \<not> row_has_na df i) [0..<nrows df]
      in map (\<lambda>(name, c). (name, map (\<lambda>i. c ! i) keep)) df)"

definition engineer_features :: "transaction list \<Rightarrow> frame" where
  "engineer_features df = dropna (monthly_frame df)"

definition exclude_cols :: "string list" where
  "exclude_cols = [''year_month'', ''date'', ''total_amount'', ''num_transactions'']"

text \<open>\<open>prepare_data\<close> returns the matrix of the feature columns and the target, and
  stores the names of the feature columns in the predictor.\<close>

definition frame_values :: "frame \<Rightarrow> cell list list" where
  "frame_values df = map (\<lambda>i. map (\<lambda>(name, c). c ! i) df) [0..<nrows df]"

definition prepare_data ::
    "frame \<Rightarrow> string + string list \<times> cell list list \<times> column" where
  "prepare_data monthly_df =
     (case frame_col monthly_df ''total_amount'' of
        None \<Rightarrow> Inl ''KeyError: total_amount''
      | Some y \<Rightarrow>
          (let features = filter (\<lambda>(name, c). name \<notin> set exclude_cols) monthly_df
           in Inr (map fst features, frame_values features, y)))"

subsection \<open>The predictor object\<close>

text \<open>
  The fitted regressors are objects of scikit-learn and XGBoost; their type is the
  parameter \<open>'m\<close>, and \<open>predict\<close> (one row in, one value out) is a parameter of
  every function that calls \<open>model.predict\<close>.
\<close>

record 'm predictor =
  models :: "'m dict"
  scaler :: "scaler_state option"
  feature_columns :: "string list"
  is_trained :: bool
  ensemble_weights :: "real dict"

definition init_predictor :: "bool \<Rightarrow> 'm predictor" where
  "init_predictor has_xgboost =
     \<lparr>models = [], scaler = None, feature_columns = [], is_trained = False,
      ensemble_weights = init_ensemble_weights has_xgboost\<rparr>"

subsection \<open>train\_with\_hyperparameter\_tuning\<close>

text \<open>
  The estimators and the metrics belong to scikit-learn and XGBoost and are parameters:
  \<open>fit name tune X_train y_train\<close> is the fitted estimator \<open>name\<close> (after its
  hyperparameter search over the expanding-window folds when \<open>tune\<close> holds) or the
  message of the exception it raised, \<open>predict\<close> is \<open>model.predict\<close> on one row, and
  \<open>metrics y_test y_pred\<close> are the three evaluation metrics.  The five blocks of the
  source (fit, store in \<open>self.models\<close>, evaluate on the test split) are one loop over
  the model names.
\<close>

text \<open>\<open>int(len(X) * 0.8)\<close>.\<close>

definition split_idx :: "nat \<Rightarrow> nat" where
  "split_idx n = nat \<lfloor>real n * (8 / 10)\<rfloor>"

definition model_names :: "bool \<Rightarrow> string list" where
  "model_names has_xgboost =
     [''linear'', ''ridge'', ''random_forest'', ''gradient_boosting'']
     @ (if has_xgboost then [''xgboost''] else [])"

fun fit_models ::
    "(string \<Rightarrow> bool \<Rightarrow> real list list \<Rightarrow> real list \<Rightarrow> string + 'm) \<Rightarrow>
     ('m \<Rightarrow> real list \<Rightarrow> real) \<Rightarrow> (real list \<Rightarrow> real list \<Rightarrow> string + 'r) \<Rightarrow>
     bool \<Rightarrow> real list list \<Rightarrow> real list \<Rightarrow> real list list \<Rightarrow> real list \<Rightarrow>
     string list \<Rightarrow> 'm dict \<Rightarrow> 'r dict \<Rightarrow> string + 'm dict \<times> 'r dict" where
  "fit_models fit predict metrics tune X_train y_train X_test y_test [] ms results =
     Inr (ms, results)"
| "fit_models fit predict metrics tune X_train y_train X_test y_test (name # names) ms results =
     (case fit name tune X_train y_train of
        Inl e \<Rightarrow> Inl e
      | Inr model \<Rightarrow>
          (case metrics y_test (map (predict model) X_test) of
             Inl e \<Rightarrow> Inl e
           | Inr r \<Rightarrow>
               fit_models fit predict metrics tune X_train y_train X_test y_test names
                 (dict_set name model ms) (dict_set name r results)))"

text \<open>\<open>_ensemble_predict\<close>: the weighted sum, over the weight table, of the
  predictions of the models present.\<close>

definition ensemble_predict ::
    "('m \<Rightarrow> real list \<Rightarrow> real) \<Rightarrow> 'm predictor \<Rightarrow> real list list \<Rightarrow> real list" where
  "ensemble_predict predict p X_scaled =
     (let preds = map (\<lambda>(name, model). (name, map (predict model) X_scaled)) (models p)
      in fold (\<lambda>(name, weight) acc.
                 case map_of preds name of
                   Some ps \<Rightarrow> map (\<lambda>(a, x). a + weight * x) (zip acc ps)
                 | None \<Rightarrow> acc)
           (ensemble_weights p) (replicate (length X_scaled) 0))"

definition train_with_hyperparameter_tuning ::
    "(string \<Rightarrow> bool \<Rightarrow> real list list \<Rightarrow> real list \<Rightarrow> string + 'm) \<Rightarrow>
     ('m \<Rightarrow> real list \<Rightarrow> real) \<Rightarrow> (real list \<Rightarrow> real list \<Rightarrow> string + 'r) \<Rightarrow>
     bool \<Rightarrow> 'm predictor \<Rightarrow> cell list list \<Rightarrow> column \<Rightarrow> bool \<Rightarrow>
     string + 'm predictor \<times> 'r dict" where
  "train_with_hyperparameter_tuning fit predict metrics has_xgboost p X y tune =
     (case scaler_fit_transform X of
        Inl e \<Rightarrow> Inl e
      | Inr (sc, X_scaled) \<Rightarrow>
          if \<not> list_all is_num y then Inl ''Input y contains NaN or infinity''
          else
            let yr = map num_of y;
                k = split_idx (length X);
                X_train = take k X_scaled;
                X_test = drop k X_scaled;
                y_train = take k yr;
                y_test = drop k yr
            in
            case fit_models fit predict metrics tune X_train y_train X_test y_test
                   (model_names has_xgboost) (models p) [] of
              Inl e \<Rightarrow> Inl e
            | Inr (ms, results) \<Rightarrow>
                let p' = p\<lparr>models := ms, scaler := Some sc\<rparr>
                in case metrics y_test (ensemble_predict predict p' X_test) of
                     Inl e \<Rightarrow> Inl e
                   | Inr r \<Rightarrow>
                       Inr (p'\<lparr>is_trained := True\<rparr>, dict_set ''ensemble'' r results))"

subsection \<open>predict\_next\_month\<close>

fun select_columns :: "frame \<Rightarrow> string list \<Rightarrow> string + column list" where
  "select_columns df [] = Inr []"
| "select_columns df (n # ns) =
     (case map_of df n of
        None \<Rightarrow> Inl (''KeyError: '' @ n)
      | Some c \<Rightarrow>
          (case select_columns df ns of Inl e \<Rightarrow> Inl e | Inr cs \<Rightarrow> Inr (c # cs)))"

text \<open>\<open>monthly_df[cols].iloc[-1:].values\<close>: the last row as a one-row matrix, or an
  empty matrix for a frame without rows.\<close>

definition last_row_values :: "frame \<Rightarrow> column list \<Rightarrow> cell list list" where
  "last_row_values df cols = (if nrows df = 0 then [] else [map last cols])"

definition confidence_of :: "real list \<Rightarrow> real" where
  "confidence_of pred_values =
     (let std_dev = np_std pred_values;
          mean_pred = mean pred_values;
          cv = (if pred_values \<noteq> [] \<and> mean_pred > 0 then std_dev / mean_pred * 100 else 100)
      in max 0 (min 100 (100 - cv)))"

text \<open>Lines 369 to 380.  \<open>tail(3)\<close> are the last three entries of the series and
  \<open>iloc[-6:-3]\<close> the three before them.  The totals of a month are finite sums; a
  frame with a total that is not finite is outside the model.\<close>

definition trend_of :: "frame \<Rightarrow> string + string" where
  "trend_of monthly_df =
     (if 3 \<le> nrows monthly_df
      then (case frame_col monthly_df ''total_amount'' of
              None \<Rightarrow> Inl ''KeyError: total_amount''
            | Some col \<Rightarrow>
                if \<not> list_all is_num col then Inl ''total_amount is not finite''
                else (let totals = map num_of col;
                          recent_avg = mean (drop (length totals - 3) totals);
                          older_avg = (if 6 \<le> nrows monthly_df
                                       then mean (take 3 (drop (length totals - 6) totals))
                                       else recent_avg)
                      in Inr (if recent_avg > older_avg * (11 / 10) then ''increasing''
                              else if recent_avg < older_avg * (9 / 10) then ''decreasing''
                              else ''stable'')))
      else Inr ''insufficient_data'')"

text \<open>\<open>min(predictions.items(), key = ...)\<close>: the first entry with the least key, the
  key of the entry \<open>ensemble\<close> being infinity (\<open>None\<close> here).\<close>

definition best_key :: "string \<times> real \<Rightarrow> real option" where
  "best_key x = (if fst x \<noteq> ''ensemble'' then Some (snd x) else None)"

fun key_less :: "real option \<Rightarrow> real option \<Rightarrow> bool" where
  "key_less (Some a) (Some b) = (a < b)"
| "key_less (Some a) None = True"
| "key_less None b = False"

definition best_model_of :: "real dict \<Rightarrow> string" where
  "best_model_of preds =
     (case preds of
        [] \<Rightarrow> []
      | x # rest \<Rightarrow>
          fst (fold (\<lambda>y b. if key_less (best_key y) (best_key b) then y else b) rest x))"

record prediction =
  predictions :: "real dict"
  confidence :: real
  trend :: string
  best_model :: string

definition predict_next_month ::
    "('m \<Rightarrow> real list \<Rightarrow> real) \<Rightarrow> 'm predictor \<Rightarrow> frame \<Rightarrow> string + prediction" where
  "predict_next_month predict p monthly_df =
     (if \<not> is_trained p
      then Inl ''Models not trained. Call train_with_hyperparameter_tuning first.''
      else
        case select_columns monthly_df (feature_columns p) of
          Inl e \<Rightarrow> Inl e
        | Inr cols \<Rightarrow>
        case scaler_transform (scaler p) (last_row_values monthly_df cols) of
          Inl e \<Rightarrow> Inl e
        | Inr last_row_scaled \<Rightarrow>
        let preds = map (\<lambda>(name, model). (name, max 0 (predict model (hd last_row_scaled))))
                      (models p);
            ensemble_pred =
              sum_list (map (\<lambda>(name, pred). dict_get (ensemble_weights p) name 0 * pred) preds);
            preds' = dict_set ''ensemble'' (max 0 ensemble_pred) preds;
            pred_values = map snd (filter (\<lambda>(k, v). k \<noteq> ''ensemble'') preds')
        in
        case trend_of monthly_df of
          Inl e \<Rightarrow> Inl e
        | Inr trend_value \<Rightarrow>
            Inr \<lparr>predictions = preds',
                 confidence = py_round2 (confidence_of pred_values),
                 trend = trend_value,
                 best_model = best_model_of preds'\<rparr>)"

subsection \<open>save\_models and load\_models\<close>

text \<open>
  \<open>joblib.dump\<close> and \<open>joblib.load\<close> are the parameters \<open>dump\<close> (an object to the
  bytes of a file) and \<open>load\<close> (bytes back to an object, or nothing when they cannot be
  read); the file system is a map from paths to file contents that accepts every write.
\<close>

record 'm model_bundle =
  b_models :: "'m dict"
  b_scaler :: "scaler_state option"
  b_feature_columns :: "string list"
  b_ensemble_weights :: "real dict"

definition save_models ::
    "('m model_bundle \<Rightarrow> 'bytes) \<Rightarrow> 'm predictor \<Rightarrow> string \<Rightarrow> (string \<rightharpoonup> 'bytes) \<Rightarrow> (string \<rightharpoonup> 'bytes)" where
  "save_models dump p path fs =
     fs(path \<mapsto> dump \<lparr>b_models = models p, b_scaler = scaler p,
                         b_feature_columns = feature_columns p,
                         b_ensemble_weights = ensemble_weights p\<rparr>)"

definition load_models ::
    "('bytes \<Rightarrow> 'm model_bundle option) \<Rightarrow> 'm predictor \<Rightarrow> string \<Rightarrow> (string \<rightharpoonup> 'bytes)
       \<Rightarrow> string + 'm predictor" where
  "load_models load p path fs =
     (case fs path of
        None \<Rightarrow> Inl ''No such file or directory''
      | Some bytes \<Rightarrow>
          (case load bytes of
             None \<Rightarrow> Inl ''could not unpickle''
           | Some d \<Rightarrow>
               Inr (p\<lparr>models := b_models d, scaler := b_scaler d,
                      feature_columns := b_feature_columns d,
                      ensemble_weights := b_ensemble_weights d,
                      is_trained := True\<rparr>)))"

section \<open>run\_ml.py: the forecast pipeline\<close>

text \<open>
  The table \<open>transactions\<close> is a list of rows in \<open>date\<close> order (the \<open>ORDER BY\<close> of
  the query is the store's).  \<open>if user_id:\<close> treats the identifier 0 like no
  identifier.
\<close>

definition load_data_from_db :: "transaction list \<Rightarrow> nat option \<Rightarrow> string + transaction list" where
  "load_data_from_db table uid =
     (let rows = (case uid of
                    None \<Rightarrow> table
                  | Some u \<Rightarrow> if u = 0 then table else filter (\<lambda>t. user_id t = u) table)
      in if rows = [] then Inl ''No transaction data found'' else Inr rows)"

text \<open>\<open>db_path.replace('.db', suffix)\<close>.\<close>

fun replace_db :: "string \<Rightarrow> string \<Rightarrow> string" where
  "replace_db suffix [] = []"
| "replace_db suffix (c # s) =
     (if take 3 (c # s) = ''.db'' then suffix @ replace_db suffix (drop 2 s)
      else c # replace_db suffix s)"

text \<open>
  Lines 45 to 61 of \<open>run_expense_prediction\<close>, after the two guards.  A result
  \<open>Inl message\<close> is the dictionary with status \<open>error\<close>, \<open>Inr\<close> the one with status
  \<open>success\<close>: the predictions, the model results and the path of the saved models.
  The category predictions (\<open>predict_by_category\<close>, plain aggregations of the
  transactions) are not part of the modelled payload.
\<close>

definition forecast_pipeline ::
    "(string \<Rightarrow> bool \<Rightarrow> real list list \<Rightarrow> real list \<Rightarrow> string + 'm) \<Rightarrow>
     ('m \<Rightarrow> real list \<Rightarrow> real) \<Rightarrow> (real list \<Rightarrow> real list \<Rightarrow> string + 'r) \<Rightarrow>
     ('m model_bundle \<Rightarrow> 'bytes) \<Rightarrow> bool \<Rightarrow> frame \<Rightarrow> string \<Rightarrow> bool \<Rightarrow> (string \<rightharpoonup> 'bytes)
       \<Rightarrow> (string + prediction \<times> 'r dict \<times> string) \<times> (string \<rightharpoonup> 'bytes)" where
  "forecast_pipeline fit predict metrics dump has_xgboost monthly_df db_path tune fs =
     (case prepare_data monthly_df of
        Inl e \<Rightarrow> (Inl e, fs)
      | Inr (cols, X, y) \<Rightarrow>
          (case train_with_hyperparameter_tuning fit predict metrics has_xgboost
                  ((init_predictor has_xgboost)\<lparr>feature_columns := cols\<rparr>) X y tune of
             Inl e \<Rightarrow> (Inl e, fs)
           | Inr (p, model_results) \<Rightarrow>
               (case predict_next_month predict p monthly_df of
                  Inl e \<Rightarrow> (Inl e, fs)
                | Inr preds \<Rightarrow>
                    (let model_path = replace_db ''_expense_models.joblib'' db_path
                     in (Inr (preds, model_results, model_path),
                         save_models dump p model_path fs)))))"

definition run_expense_prediction ::
    "(string \<Rightarrow> bool \<Rightarrow> real list list \<Rightarrow> real list \<Rightarrow> string + 'm) \<Rightarrow>
     ('m \<Rightarrow> real list \<Rightarrow> real) \<Rightarrow> (real list \<Rightarrow> real list \<Rightarrow> string + 'r) \<Rightarrow>
     ('m model_bundle \<Rightarrow> 'bytes) \<Rightarrow> bool \<Rightarrow> transaction list \<Rightarrow> string \<Rightarrow> nat option \<Rightarrow> bool
       \<Rightarrow> (string \<rightharpoonup> 'bytes)
       \<Rightarrow> (string + prediction \<times> 'r dict \<times> string) \<times> (string \<rightharpoonup> 'bytes)" where
  "run_expense_prediction fit predict metrics dump has_xgboost table db_path uid tune fs =
     (case load_data_from_db table uid of
        Inl e \<Rightarrow> (Inl e, fs)
      | Inr df \<Rightarrow>
          if length df < 10 then (Inl ''Need at least 10 transactions for prediction'', fs)
          else
            let monthly_df = engineer_features df
            in if nrows monthly_df < 3 then (Inl ''Need at least 3 months of data'', fs)
               else forecast_pipeline fit predict metrics dump has_xgboost monthly_df
                      db_path tune fs)"

subsection \<open>The trend comparison in the words of the specification\<close>

text \<open>The mean of the most recent three months, and of the three months before
  them, counted from the end of the series.\<close>

definition recent_mean :: "real list \<Rightarrow> real" where
  "recent_mean totals = mean (take 3 (rev totals))"

definition older_mean :: "real list \<Rightarrow> real" where
  "older_mean totals = mean (take 3 (drop 3 (rev totals)))"

section \<open>fraud\_detector.py: FraudDetector\<close>

subsection \<open>Feature engineering\<close>

record fraud_row =
  txn :: transaction
  hour :: nat
  day_of_week :: nat
  is_weekend :: nat
  is_night :: nat
  day_of_month :: nat
  is_month_end :: nat
  log_amount :: cell
  category_encoded :: nat
  payment_encoded :: nat
  cat_mean :: real
  cat_std :: cell
  amount_zscore :: cell
  amount_percentile :: real
  is_high_value :: nat
  daily_txn_count :: nat
  high_velocity :: nat
  merchant_frequency :: nat
  rare_merchant :: nat

definition astype_int :: "bool \<Rightarrow> nat" where
  "astype_int b = (if b then 1 else 0)"

definition log1p :: "real \<Rightarrow> cell" where
  "log1p x = (if -1 < x then Num (ln (1 + x)) else if x = -1 then NegInf else NaN)"

text \<open>\<open>LabelEncoder.fit_transform\<close>: the position of a label among the sorted distinct
  labels.\<close>

definition label_classes :: "string list \<Rightarrow> string list" where
  "label_classes labels = sort (remdups labels)"

definition label_encode :: "string list \<Rightarrow> string \<Rightarrow> nat" where
  "label_encode classes l = length (takeWhile (\<lambda>c. c \<noteq> l) classes)"

text \<open>\<open>Series.rank(pct=True)\<close>: the average rank of a value among all values, divided
  by their number.\<close>

definition rank_pct :: "real list \<Rightarrow> real \<Rightarrow> real" where
  "rank_pct xs x =
     (real (length (filter (\<lambda>y. y < x) xs)) + (real (length (filter (\<lambda>y. y = x) xs)) + 1) / 2)
       / real (length xs)"

definition fillna :: "cell \<Rightarrow> cell \<Rightarrow> cell" where
  "fillna c v = (if c = NaN then v else c)"

definition zscore :: "real \<Rightarrow> real \<Rightarrow> cell \<Rightarrow> cell" where
  "zscore a m sd =
     (case sd of
        Num s \<Rightarrow> if s + 1 = 0 then (if a - m = 0 then NaN else if 0 < a - m then PosInf else NegInf)
                 else Num ((a - m) / (s + 1))
      | PosInf \<Rightarrow> Num 0
      | NegInf \<Rightarrow> Num 0
      | NaN \<Rightarrow> NaN)"

definition date_only :: "transaction \<Rightarrow> nat \<times> nat \<times> nat" where
  "date_only t = (ts_year (date t), ts_month (date t), ts_day (date t))"

definition fd_engineer_row :: "transaction list \<Rightarrow> transaction \<Rightarrow> fraud_row" where
  "fd_engineer_row df t =
     (let h = ts_hour (date t);
          dow = ts_dayofweek (date t);
          dom = ts_day (date t);
          cat_amounts = map amount (filter (\<lambda>u. category u = category t) df);
          cstd = fillna (sample_std cat_amounts) (sample_std (map amount df));
          pct = rank_pct (map amount df) (amount t);
          daily = length (filter (\<lambda>u. user_id u = user_id t \<and> date_only u = date_only t) df);
          freq = length (filter (\<lambda>u. merchant u = merchant t) df)
      in \<lparr>txn = t,
          hour = h,
          day_of_week = dow,
          is_weekend = astype_int (5 \<le> dow),
          is_night = astype_int (22 \<le> h \<or> h \<le> 5),
          day_of_month = dom,
          is_month_end = astype_int (25 \<le> dom),
          log_amount = log1p (amount t),
          category_encoded = label_encode (label_classes (map category df)) (category t),
          payment_encoded = label_encode (label_classes (map payment_method df)) (payment_method t),
          cat_mean = mean cat_amounts,
          cat_std = cstd,
          amount_zscore = zscore (amount t) (mean cat_amounts) cstd,
          amount_percentile = pct,
          is_high_value = astype_int (95 / 100 < pct),
          daily_txn_count = daily,
          high_velocity = astype_int (5 < daily),
          merchant_frequency = freq,
          rare_merchant = astype_int (freq \<le> 2)\<rparr>)"

definition fd_engineer_features :: "transaction list \<Rightarrow> fraud_row list" where
  "fd_engineer_features df = map (fd_engineer_row df) df"

text \<open>\<open>prepare_features\<close>: the seventeen feature columns in their declared order, NaN
  replaced by 0.\<close>

definition fd_feature_names :: "string list" where
  "fd_feature_names =
     [''amount'', ''log_amount'', ''hour'', ''day_of_week'', ''is_weekend'',
      ''is_night'', ''day_of_month'', ''is_month_end'', ''category_encoded'',
      ''payment_encoded'', ''amount_zscore'', ''amount_percentile'',
      ''is_high_value'', ''daily_txn_count'', ''high_velocity'',
      ''merchant_frequency'', ''rare_merchant'']"

definition feature_vector :: "fraud_row \<Rightarrow> cell list" where
  "feature_vector r =
     map (\<lambda>c. fillna c (Num 0))
       [Num (amount (txn r)), log_amount r, Num (real (hour r)), Num (real (day_of_week r)),
        Num (real (is_weekend r)), Num (real (is_night r)), Num (real (day_of_month r)),
        Num (real (is_month_end r)), Num (real (category_encoded r)),
        Num (real (payment_encoded r)), amount_zscore r, Num (amount_percentile r),
        Num (real (is_high_value r)), Num (real (daily_txn_count r)),
        Num (real (high_velocity r)), Num (real (merchant_frequency r)),
        Num (real (rare_merchant r))]"

definition prepare_features :: "fraud_row list \<Rightarrow> cell list list" where
  "prepare_features df = map feature_vector df"

subsection \<open>The detector object and the fused score\<close>

text \<open>
  The isolation forest is an object of scikit-learn: its type is the parameter \<open>'f\<close>
  and \<open>decision_function\<close> (a matrix in, one score per row out) is a parameter.
\<close>

record 'f detector =
  isolation_forest :: "'f option"
  fd_scaler :: "scaler_state option"
  label_encoders :: "string list dict"
  fd_feature_columns :: "string list"
  fd_is_trained :: bool
  contamination :: real

definition init_detector :: "'f detector" where
  "init_detector =
     \<lparr>isolation_forest = None, fd_scaler = None, label_encoders = [],
      fd_feature_columns = [], fd_is_trained = False, contamination = 5 / 100\<rparr>"

datatype risk = Low | Medium | High | Critical

text \<open>\<open>pandas.cut(score, bins=[0, 25, 50, 75, 100], labels=[...])\<close> with the default
  \<open>right=True\<close>, \<open>include_lowest=False\<close>: the bins are open on the left and closed
  on the right, and a value outside every bin (or NaN) gets no label.\<close>

definition cut_risk :: "cell \<Rightarrow> risk option" where
  "cut_risk c =
     (case c of
        Num s \<Rightarrow>
          if 0 < s \<and> s \<le> 25 then Some Low
          else if 25 < s \<and> s \<le> 50 then Some Medium
          else if 50 < s \<and> s \<le> 75 then Some High
          else if 75 < s \<and> s \<le> 100 then Some Critical
          else None
      | PosInf \<Rightarrow> None
      | NegInf \<Rightarrow> None
      | NaN \<Rightarrow> None)"

definition np_clip :: "cell \<Rightarrow> real \<Rightarrow> real \<Rightarrow> cell" where
  "np_clip c lo hi =
     (case c of
        Num x \<Rightarrow> Num (min (max x lo) hi)
      | PosInf \<Rightarrow> Num hi
      | NegInf \<Rightarrow> Num lo
      | NaN \<Rightarrow> NaN)"

text \<open>\<open>np.minimum(np.abs(z) * 5, 25)\<close>.\<close>

definition deviation_of :: "cell \<Rightarrow> cell" where
  "deviation_of z =
     (case z of
        Num x \<Rightarrow> Num (min (\<bar>x\<bar> * 5) 25)
      | PosInf \<Rightarrow> Num 25
      | NegInf \<Rightarrow> Num 25
      | NaN \<Rightarrow> NaN)"

definition cell_add :: "real \<Rightarrow> cell \<Rightarrow> real \<Rightarrow> cell" where
  "cell_add a c b = (case c of Num x \<Rightarrow> Num (a + x + b) | PosInf \<Rightarrow> PosInf | NegInf \<Rightarrow> NegInf | NaN \<Rightarrow> NaN)"

definition cell_scale :: "cell \<Rightarrow> real \<Rightarrow> cell" where
  "cell_scale c w =
     (case c of
        Num x \<Rightarrow> Num (x * w)
      | PosInf \<Rightarrow> if 0 < w then PosInf else if w < 0 then NegInf else NaN
      | NegInf \<Rightarrow> if 0 < w then NegInf else if w < 0 then PosInf else NaN
      | NaN \<Rightarrow> NaN)"

record scored =
  row :: fraud_row
  ml_anomaly_score :: real
  amount_score :: real
  time_score :: real
  velocity_score :: real
  deviation_score :: cell
  merchant_score :: real
  fraud_score :: cell
  risk_level :: "risk option"

definition score_row :: "fraud_row \<Rightarrow> real \<Rightarrow> scored" where
  "score_row r ml =
     (let amount_s = amount_percentile r * 30;
          time_s = real (is_night r) * 15 + real (is_weekend r) * 5;
          velocity_s = min (real (daily_txn_count r) * 3) 15;
          deviation_s = deviation_of (amount_zscore r);
          merchant_s = real (rare_merchant r) * 10;
          fused = cell_add (ml * (40 / 100) + amount_s * (20 / 100) + time_s * (10 / 100)
                            + velocity_s * (10 / 100))
                    (cell_scale deviation_s (15 / 100))
                    (merchant_s * (5 / 100));
          clipped = np_clip fused 0 100
      in \<lparr>row = r, ml_anomaly_score = ml, amount_score = amount_s, time_score = time_s,
          velocity_score = velocity_s, deviation_score = deviation_s,
          merchant_score = merchant_s, fraud_score = clipped,
          risk_level = cut_risk clipped\<rparr>)"

definition ml_scores :: "real list \<Rightarrow> real list" where
  "ml_scores decision_scores =
     (let min_score = Min (set decision_scores); max_score = Max (set decision_scores)
      in map (\<lambda>d. 100 - ((d - min_score) / (max_score - min_score + 1 / 10 ^ 10) * 100))
           decision_scores)"

definition calculate_fraud_scores ::
    "('f \<Rightarrow> real list list \<Rightarrow> real list) \<Rightarrow> 'f detector \<Rightarrow> fraud_row list \<Rightarrow> cell list list
       \<Rightarrow> string + scored list" where
  "calculate_fraud_scores decision_function det df X =
     (case scaler_transform (fd_scaler det) X of
        Inl e \<Rightarrow> Inl e
      | Inr X_scaled \<Rightarrow>
          case (case isolation_forest det of
                  Some forest \<Rightarrow>
                    (let decision_scores = decision_function forest X_scaled
                     in if decision_scores = []
                        then Inl ''zero-size array to reduction operation minimum''
                        else Inr (ml_scores decision_scores))
                | None \<Rightarrow> Inr (replicate (length df) 0)) of
            Inl e \<Rightarrow> Inl e
          | Inr ml \<Rightarrow>
              if length ml \<noteq> length df
              then Inl ''Length of values does not match length of index''
              else Inr (map (\<lambda>(r, m). score_row r m) (zip df ml)))"

subsection \<open>Training and the detection pipeline\<close>

text \<open>
  \<open>fit_forest tune contamination X_scaled\<close> stands for the grid search (or the fixed
  configuration) and the final fit of the isolation forest: the fitted forest with the
  contamination retained, or the message of the exception raised.  The summaries that
  \<open>train_isolation_forest\<close> and \<open>detect_fraud\<close> return beside the detector and the
  scored rows (number and rate of anomalies, count of flagged transactions, histogram of
  the risk levels, the ten highest scores) are read off these and are not modelled.
\<close>

definition train_isolation_forest ::
    "(bool \<Rightarrow> real \<Rightarrow> real list list \<Rightarrow> string + 'f \<times> real) \<Rightarrow> 'f detector \<Rightarrow> cell list list \<Rightarrow> bool
       \<Rightarrow> string + 'f detector" where
  "train_isolation_forest fit_forest det X tune =
     (case scaler_fit_transform X of
        Inl e \<Rightarrow> Inl e
      | Inr (sc, X_scaled) \<Rightarrow>
          (case fit_forest tune (contamination det) X_scaled of
             Inl e \<Rightarrow> Inl e
           | Inr (forest, contam) \<Rightarrow>
               Inr (det\<lparr>fd_scaler := Some sc, contamination := contam,
                        isolation_forest := Some forest, fd_is_trained := True\<rparr>)))"

definition detect_fraud ::
    "(bool \<Rightarrow> real \<Rightarrow> real list list \<Rightarrow> string + 'f \<times> real) \<Rightarrow>
     ('f \<Rightarrow> real list list \<Rightarrow> real list) \<Rightarrow> 'f detector \<Rightarrow> transaction list \<Rightarrow> bool
       \<Rightarrow> string + 'f detector \<times> scored list" where
  "detect_fraud fit_forest decision_function det df tune =
     (let df_featured = fd_engineer_features df;
          det1 = det\<lparr>label_encoders :=
                       [(''category'', label_classes (map category df)),
                        (''payment_method'', label_classes (map payment_method df))],
                     fd_feature_columns := fd_feature_names\<rparr>;
          X = prepare_features df_featured
      in case train_isolation_forest fit_forest det1 X tune of
           Inl e \<Rightarrow> Inl e
         | Inr det2 \<Rightarrow>
             (case calculate_fraud_scores decision_function det2 df_featured X of
                Inl e \<Rightarrow> Inl e
              | Inr df_scored \<Rightarrow> Inr (det2, df_scored)))"

record 'f fd_bundle =
  b_isolation_forest :: "'f option"
  b_fd_scaler :: "scaler_state option"
  b_label_encoders :: "string list dict"
  b_fd_feature_columns :: "string list"
  b_contamination :: real

definition fd_save_models ::
    "('f fd_bundle \<Rightarrow> 'bytes) \<Rightarrow> 'f detector \<Rightarrow> string \<Rightarrow> (string \<rightharpoonup> 'bytes) \<Rightarrow> (string \<rightharpoonup> 'bytes)" where
  "fd_save_models dump det path fs =
     fs(path \<mapsto> dump \<lparr>b_isolation_forest = isolation_forest det, b_fd_scaler = fd_scaler det,
                         b_label_encoders = label_encoders det,
                         b_fd_feature_columns = fd_feature_columns det,
                         b_contamination = contamination det\<rparr>)"

definition fd_load_models ::
    "('bytes \<Rightarrow> 'f fd_bundle option) \<Rightarrow> 'f detector \<Rightarrow> string \<Rightarrow> (string \<rightharpoonup> 'bytes)
       \<Rightarrow> string + 'f detector" where
  "fd_load_models load det path fs =
     (case fs path of
        None \<Rightarrow> Inl ''No such file or directory''
      | Some bytes \<Rightarrow>
          (case load bytes of
             None \<Rightarrow> Inl ''could not unpickle''
           | Some d \<Rightarrow>
               Inr (det\<lparr>isolation_forest := b_isolation_forest d, fd_scaler := b_fd_scaler d,
                        label_encoders := b_label_encoders d,
                        fd_feature_columns := b_fd_feature_columns d,
                        contamination := b_contamination d,
                        fd_is_trained := True\<rparr>)))"

section \<open>run\_ml.py: the fraud pipeline\<close>

definition run_fraud_detection ::
    "(bool \<Rightarrow> real \<Rightarrow> real list list \<Rightarrow> string + 'f \<times> real) \<Rightarrow>
     ('f \<Rightarrow> real list list \<Rightarrow> real list) \<Rightarrow> ('f fd_bundle \<Rightarrow> 'bytes) \<Rightarrow>
     transaction list \<Rightarrow> string \<Rightarrow> nat option \<Rightarrow> bool \<Rightarrow> (string \<rightharpoonup> 'bytes)
       \<Rightarrow> (string + scored list \<times> string) \<times> (string \<rightharpoonup> 'bytes)" where
  "run_fraud_detection fit_forest decision_function dump table db_path uid tune fs =
     (case load_data_from_db table uid of
        Inl e \<Rightarrow> (Inl e, fs)
      | Inr df \<Rightarrow>
          if length df < 10 then (Inl ''Need at least 10 transactions for fraud detection'', fs)
          else
            (case detect_fraud fit_forest decision_function init_detector df tune of
               Inl e \<Rightarrow> (Inl e, fs)
             | Inr (det, df_scored) \<Rightarrow>
                 (let model_path = replace_db ''_fraud_models.joblib'' db_path
                  in (Inr (df_scored, model_path), fd_save_models dump det model_path fs))))"

section \<open>Sample data\<close>

text \<open>Concrete inputs at which the properties below are evaluated.\<close>

definition example_ts :: "nat \<Rightarrow> nat \<Rightarrow> nat \<Rightarrow> timestamp" where
  "example_ts y m d = \<lparr>ts_year = y, ts_month = m, ts_day = d, ts_hour = 12, ts_dayofweek = 2\<rparr>"

definition example_txn :: "nat \<Rightarrow> nat \<Rightarrow> nat \<Rightarrow> real \<Rightarrow> transaction" where
  "example_txn i y m a =
     \<lparr>txn_id = i, user_id = 1, date = example_ts y m 15, amount = a,
      category = ''Food'', merchant = ''Cafe'', payment_method = ''Card''\<rparr>"

definition boundary_row :: fraud_row where
  "boundary_row =
     \<lparr>txn = example_txn 1 2024 1 50, hour = 12, day_of_week = 2, is_weekend = 0, is_night = 0,
      day_of_month = 15, is_month_end = 0, log_amount = Num (ln 51), category_encoded = 0,
      payment_encoded = 0, cat_mean = 50, cat_std = Num 0, amount_zscore = Num 0,
      amount_percentile = 1 / 2, is_high_value = 0, daily_txn_count = 1, high_velocity = 0,
      merchant_frequency = 3, rare_merchant = 0\<rparr>"

definition example_detector :: "unit detector" where
  "example_detector =
     \<lparr>isolation_forest = Some (), fd_scaler = Some \<lparr>sc_mean = [0], sc_scale = [1]\<rparr>,
      label_encoders = [], fd_feature_columns = [''amount''], fd_is_trained = True,
      contamination = 5 / 100\<rparr>"

definition example_decision_function :: "unit \<Rightarrow> real list list \<Rightarrow> real list" where
  "example_decision_function f X = map hd X"

definition example_fraud_df :: "transaction list" where
  "example_fraud_df = [example_txn 1 2024 1 50, example_txn 2 2024 1 70]"

definition example_predict :: "real \<Rightarrow> real list \<Rightarrow> real" where
  "example_predict m r = m"

definition example_predictor :: "real predictor" where
  "example_predictor =
     \<lparr>models = [(''linear'', 1), (''ridge'', 2)],
      scaler = Some \<lparr>sc_mean = [0], sc_scale = [1]\<rparr>,
      feature_columns = [''lag_1''],
      is_trained = True,
      ensemble_weights = init_ensemble_weights False\<rparr>"

definition example_monthly :: frame where
  "example_monthly =
     [(''total_amount'', map Num [100, 100, 100, 100, 100, 200]),
      (''lag_1'', map Num [100, 100, 100, 100, 100, 100])]"

definition single_txn_months :: "transaction list" where
  "single_txn_months =
     [example_txn 1 2024 1 100, example_txn 2 2024 2 100, example_txn 3 2024 3 100,
      example_txn 4 2024 4 100, example_txn 5 2024 5 100, example_txn 6 2024 6 100,
      example_txn 7 2024 7 100]"

definition two_txn_months :: "transaction list" where
  "two_txn_months =
     [example_txn 1 2024 1 50, example_txn 2 2024 1 70,
      example_txn 3 2024 2 50, example_txn 4 2024 2 70,
      example_txn 5 2024 3 50, example_txn 6 2024 3 70,
      example_txn 7 2024 4 50, example_txn 8 2024 4 70,
      example_txn 9 2024 5 50, example_txn 10 2024 5 70,
      example_txn 11 2024 6 50, example_txn 12 2024 6 70,
      example_txn 13 2024 7 50, example_txn 14 2024 7 70]"

definition always_fit :: "string \<Rightarrow> bool \<Rightarrow> real list list \<Rightarrow> real list \<Rightarrow> string + real" where
  "always_fit name tune X_train y_train = Inr (mean y_train)"

definition no_metrics :: "real list \<Rightarrow> real list \<Rightarrow> string + unit" where
  "no_metrics y_test y_pred = Inr ()"

definition leaky_matrix :: "real \<Rightarrow> cell list list" where
  "leaky_matrix v = [[Num 1], [Num 2], [Num 3], [Num 4], [Num v]]"

definition nine_months :: "transaction list" where
  "nine_months =
     [example_txn 1 2024 1 50, example_txn 2 2024 1 70,
      example_txn 3 2024 2 50, example_txn 4 2024 2 70,
      example_txn 5 2024 3 50, example_txn 6 2024 3 70,
      example_txn 7 2024 4 50, example_txn 8 2024 4 70,
      example_txn 9 2024 5 50, example_txn 10 2024 5 70,
      example_txn 11 2024 6 50, example_txn 12 2024 6 70,
      example_txn 13 2024 7 50, example_txn 14 2024 7 70,
      example_txn 15 2024 8 50, example_txn 16 2024 8 70,
      example_txn 17 2024 9 50, example_txn 18 2024 9 70]"

section \<open>Properties\<close>

subsection \<open>Auxiliary facts\<close>

lemma cut_risk_Low: "cut_risk (Num s) = Some Low \<longleftrightarrow> 0 < s \<and> s \<le> 25"
  by (simp add: cut_risk_def)
lemma cut_risk_Medium: "cut_risk (Num s) = Some Medium \<longleftrightarrow> 25 < s \<and> s \<le> 50"
  by (simp add: cut_risk_def)
lemma cut_risk_High: "cut_risk (Num s) = Some High \<longleftrightarrow> 50 < s \<and> s \<le> 75"
  by (simp add: cut_risk_def)
lemma cut_risk_Critical: "cut_risk (Num s) = Some Critical \<longleftrightarrow> 75 < s \<and> s \<le> 100"
  by (simp add: cut_risk_def)

lemma ml_scores_le: 
  assumes "m \<in> set (ml_scores ds)" shows "0 \<le> m \<and> m \<le> 100"
proof -
  define den where "den = Max (set ds) - Min (set ds) + 1 / 10 ^ 10"
  from assms obtain d where d: "d \<in> set ds" 
    and m: "m = 100 - ((d - Min (set ds)) / den * 100)"
    by (auto simp: ml_scores_def Let_def den_def)
  define q where "q = (d - Min (set ds)) / den"
  have lo: "Min (set ds) \<le> d" using d by simp
  have hi: "d \<le> Max (set ds)" using d by simp
  have den: "0 < den" using lo hi by (simp add: den_def add_nonneg_pos)
  have q0: "0 \<le> q" using lo den by (simp add: q_def)
  have "d - Min (set ds) \<le> den" using hi by (simp add: den_def)
  then have q1: "q \<le> 1" using den by (simp add: q_def divide_le_eq)
  have "m = 100 - q * 100" by (simp add: m q_def)
  then show ?thesis using q0 q1 by simp
qed

lemma length_filter_mono: "(\<And>x. x \<in> set xs \<Longrightarrow> P x \<Longrightarrow> Q x) \<Longrightarrow> length (filter P xs) \<le> length (filter Q xs)"
  by (induction xs) auto

lemma rank_pct_le_1:
  assumes "x \<in> set xs" shows "rank_pct xs x \<le> 1" and "0 < rank_pct xs x"
proof -
  let ?l = "length (filter (\<lambda>y. y < x) xs)" and ?e = "length (filter (\<lambda>y. y = x) xs)"
  have e1: "1 \<le> ?e" using assms by (induction xs) auto
  have "?e \<le> length (filter (\<lambda>y. \<not> y < x) xs)" by (rule length_filter_mono) simp
  moreover have "?l + length (filter (\<lambda>y. \<not> y < x) xs) = length xs"
    by (rule sum_length_filter_compl)
  ultimately have le: "?l + ?e \<le> length xs" by linarith
  have n: "0 < length xs" using assms by (cases xs) auto
  have "real ?l + (real ?e + 1) / 2 \<le> real ?l + real ?e" using e1 by simp
  also have "\<dots> \<le> real (length xs)" using le by (metis of_nat_add of_nat_le_iff)
  finally show "rank_pct xs x \<le> 1" using n by (simp add: rank_pct_def divide_le_eq)
  have "0 < real ?l + (real ?e + 1) / 2" by (simp add: add_nonneg_pos)
  then show "0 < rank_pct xs x" using n by (simp add: rank_pct_def)
qed

lemma map_of_dict_set_same: "map_of (dict_set k v d) k = Some v"
  by (induction d) auto

lemma fold_key_mem: "fst (fold (\<lambda>y b. if P y b then y else b) xs x) \<in> fst ` set (x # xs)"
  by (induction xs arbitrary: x) auto

lemma predict_next_month_Inr:
  assumes "predict_next_month predict p monthly_df = Inr res"
  obtains cols X where
    "is_trained p"
    "select_columns monthly_df (feature_columns p) = Inr cols"
    "scaler_transform (scaler p) (last_row_values monthly_df cols) = Inr X"
    "predictions res =
       dict_set ''ensemble''
         (max 0 (sum_list (map (\<lambda>(name, pred). dict_get (ensemble_weights p) name 0 * pred)
            (map (\<lambda>(name, model). (name, max 0 (predict model (hd X)))) (models p)))))
         (map (\<lambda>(name, model). (name, max 0 (predict model (hd X)))) (models p))"
    "confidence res =
       py_round2 (confidence_of (map snd (filter (\<lambda>(k, v). k \<noteq> ''ensemble'') (predictions res))))"
    "trend_of monthly_df = Inr (trend res)"
  using assms
  by (auto simp: predict_next_month_def Let_def split: if_splits sum.splits option.splits)

lemma forecast_nonneg:
  assumes "predict_next_month predict p monthly_df = Inr res"
  shows "\<exists>e. map_of (predictions res) ''ensemble'' = Some e \<and> 0 \<le> e"
  using assms by (elim predict_next_month_Inr) (simp add: map_of_dict_set_same)

lemma score_row_range:
  assumes "amount_zscore r \<noteq> NaN"
  shows "\<exists>x. fraud_score (score_row r ml) = Num x \<and> 0 \<le> x \<and> x \<le> 100"
  using assms
  by (cases "amount_zscore r")
     (simp_all add: score_row_def Let_def deviation_of_def cell_scale_def cell_add_def np_clip_def)

lemma calculate_fraud_scores_Inr:
  assumes "calculate_fraud_scores decision_function det df X = Inr out"
  obtains ml where "length ml = length df" "out = map (\<lambda>(r, m). score_row r m) (zip df ml)"
    "\<forall>m \<in> set ml. 0 \<le> m \<and> m \<le> 100"
proof -
  from assms obtain ml where ml: "length ml = length df"
      "out = map (\<lambda>(r, m). score_row r m) (zip df ml)"
      and src: "(\<exists>forest. isolation_forest det = Some forest \<and> (\<exists>ds. ml = ml_scores ds))
             \<or> ml = replicate (length df) 0"
    by (auto simp: calculate_fraud_scores_def Let_def split: sum.splits option.splits if_splits)
  have "\<forall>m \<in> set ml. 0 \<le> m \<and> m \<le> 100"
    using src ml_scores_le by auto
  with ml show ?thesis using that by blast
qed

lemma weighted_caps:
  fixes a b c d e z g :: real
  assumes "a \<le> 100" "b \<le> 1" "c \<le> 1" "d \<le> 1" "e \<le> 15" "z \<le> 25" "g \<le> 1"
  shows "a * (40 / 100) + b * 30 * (20 / 100) + (c * 15 + d * 5) * (10 / 100)
     + e * (10 / 100) + z * (15 / 100) + g * 10 * (5 / 100) \<le> 215 / 4"
proof -
  have "a * (40 / 100) \<le> 40" using assms(1) by simp
  moreover have "b * 30 * (20 / 100) \<le> 6" using assms(2) by simp
  moreover have "(c * 15 + d * 5) * (10 / 100) \<le> 2" using assms(3,4) by simp
  moreover have "e * (10 / 100) \<le> 3 / 2" using assms(5) by simp
  moreover have "z * (15 / 100) \<le> 15 / 4" using assms(6) by simp
  moreover have "g * 10 * (5 / 100) \<le> 1 / 2" using assms(7) by simp
  ultimately show ?thesis by linarith
qed

lemma fused_le:
  assumes "ml \<le> 100" "amount_percentile r \<le> 1" "is_night r \<le> 1" "is_weekend r \<le> 1"
    "rare_merchant r \<le> 1" "fraud_score (score_row r ml) = Num x"
  shows "x \<le> 215 / 4"
proof -
  obtain z where z: "deviation_of (amount_zscore r) = Num z" "z \<le> 25"
    using assms(6)
    by (cases "amount_zscore r")
       (auto simp: score_row_def Let_def deviation_of_def cell_scale_def cell_add_def np_clip_def)
  have n: "real (is_night r) \<le> 1" "real (is_weekend r) \<le> 1" "real (rare_merchant r) \<le> 1"
    using assms(3,4,5) by simp_all
  have v: "min (real (daily_txn_count r) * 3) 15 \<le> 15" by simp
  define f where "f = ml * (40 / 100) + amount_percentile r * 30 * (20 / 100)
     + (real (is_night r) * 15 + real (is_weekend r) * 5) * (10 / 100)
     + min (real (daily_txn_count r) * 3) 15 * (10 / 100) + z * (15 / 100)
     + real (rare_merchant r) * 10 * (5 / 100)"
  have "f \<le> 215 / 4"
    unfolding f_def using assms(1,2) n v z(2) by (intro weighted_caps)
  moreover have "x = min (max f 0) 100"
    using assms(6) z(1)
    by (simp add: score_row_def Let_def cell_scale_def cell_add_def np_clip_def f_def)
  ultimately show ?thesis by simp
qed

lemma fd_engineer_row_ranges:
  assumes "t \<in> set df"
  shows "amount_percentile (fd_engineer_row df t) \<le> 1"
    "is_night (fd_engineer_row df t) \<le> 1" "is_weekend (fd_engineer_row df t) \<le> 1"
    "rare_merchant (fd_engineer_row df t) \<le> 1"
  using assms rank_pct_le_1(1)[of "amount t" "map amount df"]
  by (simp_all add: fd_engineer_row_def Let_def astype_int_def)


subsection \<open>C1: ensemble weights\<close>

text \<open>
  C1.  The claim is that for both configurations the weights are non-negative and sum
  to 1.0, the weight of a missing XGBoost learner being handed to random\_forest and
  gradient\_boosting in proportion to their original (equal) split.  The table built
  when XGBoost is present does sum to 1, but the table built when it is missing is
  linear 0.10, ridge 0.15, random\_forest 0.30, gradient\_boosting 0.35: only 0.15 of the
  0.25 is handed out, unequally, and the total is 0.90.
\<close>

theorem init_ensemble_weights_without_xgboost:
  "init_ensemble_weights False =
     [(''linear'', 1 / 10), (''ridge'', 3 / 20),
      (''random_forest'', 3 / 10), (''gradient_boosting'', 7 / 20)]
   \<and> sum_list (dict_values (init_ensemble_weights False)) = 9 / 10
   \<and> sum_list (dict_values (init_ensemble_weights True)) = 1
   \<and> list_all (\<lambda>w. 0 \<le> w) (dict_values (init_ensemble_weights False))
   \<and> list_all (\<lambda>w. 0 \<le> w) (dict_values (init_ensemble_weights True))"
  by (simp add: init_ensemble_weights_def default_ensemble_weights_def dict_del_def
      dict_values_def)

subsection \<open>C5: risk labels\<close>

text \<open>
  C5, counterexample.  The claim puts a score of exactly 25 into the bin Medium
  (\<open>[25,50)\<close>).  A transaction at the median amount, alone on its day, with an
  anomaly score of 54.25 has the fused score 25, and \<open>pandas.cut\<close> labels it Low.
\<close>

theorem risk_bins_at_25:
  "fraud_score (score_row boundary_row (217 / 4)) = Num 25
   \<and> risk_level (score_row boundary_row (217 / 4)) = Some Low"
  by (simp add: score_row_def boundary_row_def Let_def deviation_of_def cell_scale_def
      cell_add_def np_clip_def cut_risk_def)

text \<open>
  C5, as amended.  For every scored transaction the label follows the bins of
  \<open>pandas.cut\<close>, open on the left and closed on the right: Low iff the score is in
  \<open>(0,25]\<close>, Medium iff in \<open>(25,50]\<close>, High iff in \<open>(50,75]\<close>, Critical iff in
  \<open>(75,100]\<close>; every positive score is at most 100 and has a label.
\<close>

theorem risk_level_bins:
  assumes "calculate_fraud_scores decision_function det df X = Inr out"
  shows "\<forall>s \<in> set out.
           (risk_level s = Some Low \<longleftrightarrow> (\<exists>x. fraud_score s = Num x \<and> 0 < x \<and> x \<le> 25))
         \<and> (risk_level s = Some Medium \<longleftrightarrow> (\<exists>x. fraud_score s = Num x \<and> 25 < x \<and> x \<le> 50))
         \<and> (risk_level s = Some High \<longleftrightarrow> (\<exists>x. fraud_score s = Num x \<and> 50 < x \<and> x \<le> 75))
         \<and> (risk_level s = Some Critical \<longleftrightarrow> (\<exists>x. fraud_score s = Num x \<and> 75 < x \<and> x \<le> 100))
         \<and> (\<forall>x. fraud_score s = Num x \<and> 0 < x \<longrightarrow> x \<le> 100 \<and> risk_level s \<noteq> None)"
proof
  fix s assume "s \<in> set out"
  with assms obtain r m where s: "s = score_row r m"
    by (elim calculate_fraud_scores_Inr) (auto simp: set_zip)
  have rl: "risk_level s = cut_risk (fraud_score s)"
    by (simp add: s score_row_def Let_def)
  have clip: "x \<le> 100" if "fraud_score s = Num x" for x
    using that unfolding s score_row_def Let_def np_clip_def
    by (auto split: cell.splits)
  show "(risk_level s = Some Low \<longleftrightarrow> (\<exists>x. fraud_score s = Num x \<and> 0 < x \<and> x \<le> 25))
         \<and> (risk_level s = Some Medium \<longleftrightarrow> (\<exists>x. fraud_score s = Num x \<and> 25 < x \<and> x \<le> 50))
         \<and> (risk_level s = Some High \<longleftrightarrow> (\<exists>x. fraud_score s = Num x \<and> 50 < x \<and> x \<le> 75))
         \<and> (risk_level s = Some Critical \<longleftrightarrow> (\<exists>x. fraud_score s = Num x \<and> 75 < x \<and> x \<le> 100))
         \<and> (\<forall>x. fraud_score s = Num x \<and> 0 < x \<longrightarrow> x \<le> 100 \<and> risk_level s \<noteq> None)"
  proof (cases "fraud_score s")
    case (Num x)
    then show ?thesis using clip[of x]
      by (simp add: rl cut_risk_Low cut_risk_Medium cut_risk_High cut_risk_Critical)
         (simp add: cut_risk_def)
  qed (simp_all add: rl cut_risk_def)
qed

lemma example_scores:
  "calculate_fraud_scores example_decision_function example_detector
      [boundary_row, boundary_row] [[Num 1], [Num 3]]
   = Inr [score_row boundary_row 100,
          score_row boundary_row (100 - 2 / (2 + 1 / 10 ^ 10) * 100)]"
  by (simp add: calculate_fraud_scores_def example_detector_def example_decision_function_def
      scaler_transform_def check_array_def scaler_transform_row_def ml_scores_def Let_def)

theorem risk_level_bins_witness:
  "calculate_fraud_scores example_decision_function example_detector
      [boundary_row, boundary_row] [[Num 1], [Num 3]]
   = Inr [score_row boundary_row 100,
          score_row boundary_row (100 - 2 / (2 + 1 / 10 ^ 10) * 100)]
   \<and> fraud_score (score_row boundary_row 100) = Num (433 / 10)
   \<and> risk_level (score_row boundary_row 100) = Some Medium"
proof -
  have fs: "fraud_score (score_row boundary_row 100) = Num (433 / 10)"
    by (simp add: score_row_def boundary_row_def Let_def deviation_of_def cell_scale_def
      cell_add_def np_clip_def)
  have ex: "\<exists>x. fraud_score (score_row boundary_row 100) = Num x \<and> 25 < x \<and> x \<le> 50"
    by (intro exI[of _ "433 / 10"]) (simp add: fs)
  have "score_row boundary_row 100
      \<in> set [score_row boundary_row 100,
          score_row boundary_row (100 - 2 / (2 + 1 / 10 ^ 10) * 100)]"
    by simp
  from risk_level_bins[OF example_scores, THEN bspec, OF this] ex
  have "risk_level (score_row boundary_row 100) = Some Medium" by blast
  with fs example_scores show ?thesis by simp
qed

lemma np_std_1_2: "np_std [1, 2] = 1 / 2"
  by (simp add: np_std_def mean_def power2_eq_square real_sqrt_divide)

lemma ex_cols: "select_columns example_monthly (feature_columns example_predictor)
   = Inr [map Num [100, 100, 100, 100, 100, 100]]"
  by (simp add: example_monthly_def example_predictor_def)

lemma ex_last: "last_row_values example_monthly [map Num [100, 100, 100, 100, 100, 100]] = [[Num 100]]"
  by (simp add: example_monthly_def last_row_values_def nrows_def)

lemma ex_scaled: "scaler_transform (scaler example_predictor) [[Num 100]] = Inr [[100]]"
  by (simp add: example_predictor_def scaler_transform_def check_array_def scaler_transform_row_def)

lemma ex_weights: "dict_get (ensemble_weights example_predictor) ''linear'' 0 = 1 / 10"
  "dict_get (ensemble_weights example_predictor) ''ridge'' 0 = 15 / 100"
  by (simp_all add: example_predictor_def dict_get_def init_ensemble_weights_def default_ensemble_weights_def dict_del_def)

lemma ex_conf: "py_round2 (confidence_of [1, 2]) = 6667 / 100"
  by (simp add: confidence_of_def np_std_1_2 mean_def py_round2_def round_half_even_def Let_def)

lemma ex_trend: "trend_of example_monthly = Inr ''increasing''"
  by (simp add: trend_of_def example_monthly_def nrows_def frame_col_def mean_def Let_def)

lemma ex_best: "best_model_of [(''linear'', 1), (''ridge'', 2), (''ensemble'', 2 / 5)] = ''linear''"
  by (simp add: best_model_of_def best_key_def)

lemma ex_preds: "map (\<lambda>(name, model). (name, max 0 (example_predict model [100])))
      (models example_predictor) = [(''linear'', 1), (''ridge'', 2)]"
  by (simp add: example_predictor_def example_predict_def)

lemma ex_total: "frame_col example_monthly ''total_amount'' = Some (map Num [100, 100, 100, 100, 100, 200])"
  by (simp add: example_monthly_def frame_col_def)

lemma ex_ens: "sum_list (map (\<lambda>(name, pred). dict_get (ensemble_weights example_predictor) name 0 * pred)
     [(''linear'', 1), (''ridge'', 2)]) = 2 / 5"
  by (simp add: ex_weights)

lemma ex_set: "dict_set ''ensemble'' (2 / 5) [(''linear'', 1), (''ridge'', 2)]
   = [(''linear'', 1), (''ridge'', 2), (''ensemble'', 2 / 5 :: real)]"
  by simp

lemma ex_values: "map snd (filter (\<lambda>(k, v). k \<noteq> ''ensemble'')
     [(''linear'', 1), (''ridge'', 2), (''ensemble'', 2 / 5 :: real)]) = [1, 2]"
  by simp

lemma example_prediction:
  "predict_next_month example_predict example_predictor example_monthly =
     Inr \<lparr>predictions = [(''linear'', 1), (''ridge'', 2), (''ensemble'', 2 / 5)],
          confidence = 6667 / 100, trend = ''increasing'', best_model = ''linear''\<rparr>"
proof -
  have t: "is_trained example_predictor" by (simp add: example_predictor_def)
  have m: "max 0 (2 / 5 :: real) = 2 / 5" by simp
  show ?thesis
    unfolding predict_next_month_def
    by (simp only: t ex_cols ex_last ex_scaled ex_preds ex_ens ex_set ex_values
        ex_conf ex_trend ex_best m Let_def list.sel sum.case option.case not_True_eq_False
        if_False if_True not_False_eq_True)
qed

lemma filter_dict_set:
  "filter (\<lambda>(k, v). k \<noteq> key) (dict_set key x d) = filter (\<lambda>(k, v). k \<noteq> key) d"
  by (induction d) auto

lemma mean_nonneg: "list_all (\<lambda>v. 0 \<le> v) xs \<Longrightarrow> 0 \<le> mean xs"
  by (simp add: mean_def list_all_iff sum_list_nonneg)

lemma round_half_even_0: "py_round2 0 = 0"
  by (simp add: py_round2_def round_half_even_def)

lemma round_half_even_close: "\<bar>of_int (round_half_even y) - y\<bar> \<le> 1 / 2"
proof -
  have "of_int \<lfloor>y\<rfloor> \<le> y" "y < of_int \<lfloor>y\<rfloor> + 1" by linarith+
  then show ?thesis
    by (auto simp: round_half_even_def Let_def)
qed

lemma py_round2_close: "\<bar>py_round2 x - x\<bar> \<le> 1 / 200"
proof -
  have "\<bar>of_int (round_half_even (x * 100)) - x * 100\<bar> \<le> 1 / 2"
    by (rule round_half_even_close)
  then show ?thesis by (simp add: py_round2_def field_simps abs_le_iff)
qed

lemma individual_nonneg:
  assumes "predict_next_month predict p monthly_df = Inr res"
  shows "list_all (\<lambda>v. 0 \<le> v) (map snd (filter (\<lambda>(k, v). k \<noteq> ''ensemble'') (predictions res)))"
  using assms
  by (elim predict_next_month_Inr) (auto simp: filter_dict_set list_all_iff)

lemma mean_Nil: "mean [] = 0"
  by (simp add: mean_def)

lemma mean_recent: "mean (drop (length xs - 3) xs) = recent_mean xs"
  by (simp add: recent_mean_def mean_def take_rev)

lemma mean_older: "6 \<le> length xs \<Longrightarrow> mean (take 3 (drop (length xs - 6) xs)) = older_mean xs"
proof -
  assume n: "6 \<le> length xs"
  have "take 3 (drop 3 (rev xs)) = rev (drop (length xs - 3 - 3) (take (length xs - 3) xs))"
    using n by (simp add: drop_rev take_rev)
  also have "drop (length xs - 3 - 3) (take (length xs - 3) xs) = take 3 (drop (length xs - 6) xs)"
    using n by (simp add: drop_take)
  finally show ?thesis by (simp add: older_mean_def mean_def)
qed

subsection \<open>C4: ranges of the forecast and of the fraud score\<close>

text \<open>
  C4.  Whenever \<open>predict_next_month\<close> returns, the entry \<open>ensemble\<close> of its
  predictions is at least 0; whenever \<open>calculate_fraud_scores\<close> returns, it scores
  every row, and for every row with a finite category z-score the fused score is a
  number between 0 and 100.
\<close>

theorem forecast_nonneg_fraud_score_in_range:
  "(predict_next_month predict p monthly_df = Inr res \<longrightarrow>
      (\<exists>e. map_of (predictions res) ''ensemble'' = Some e \<and> 0 \<le> e))
   \<and> (calculate_fraud_scores decision_function det df X = Inr out \<longrightarrow>
        length out = length df
        \<and> (\<forall>s \<in> set out. amount_zscore (row s) \<noteq> NaN \<longrightarrow>
              (\<exists>x. fraud_score s = Num x \<and> 0 \<le> x \<and> x \<le> 100)))"
proof (intro conjI impI)
  assume "predict_next_month predict p monthly_df = Inr res"
  then show "\<exists>e. map_of (predictions res) ''ensemble'' = Some e \<and> 0 \<le> e"
    by (rule forecast_nonneg)
next
  assume a: "calculate_fraud_scores decision_function det df X = Inr out"
  then obtain ml where ml: "length ml = length df"
      "out = map (\<lambda>(r, m). score_row r m) (zip df ml)"
    by (elim calculate_fraud_scores_Inr)
  show "length out = length df" using ml by simp
  show "\<forall>s \<in> set out. amount_zscore (row s) \<noteq> NaN \<longrightarrow>
              (\<exists>x. fraud_score s = Num x \<and> 0 \<le> x \<and> x \<le> 100)"
  proof (intro ballI impI)
    fix s assume s: "s \<in> set out" and z: "amount_zscore (row s) \<noteq> NaN"
    from s ml obtain r m where rm: "s = score_row r m" by auto
    have "row s = r" by (simp add: rm score_row_def Let_def)
    with z show "\<exists>x. fraud_score s = Num x \<and> 0 \<le> x \<and> x \<le> 100"
      unfolding rm by (intro score_row_range) simp
  qed
qed

theorem forecast_nonneg_fraud_score_in_range_witness:
  "predict_next_month example_predict example_predictor example_monthly =
     Inr \<lparr>predictions = [(''linear'', 1), (''ridge'', 2), (''ensemble'', 2 / 5)],
          confidence = 6667 / 100, trend = ''increasing'', best_model = ''linear''\<rparr>
   \<and> calculate_fraud_scores example_decision_function example_detector
        [boundary_row, boundary_row] [[Num 1], [Num 3]]
      = Inr [score_row boundary_row 100,
          score_row boundary_row (100 - 2 / (2 + 1 / 10 ^ 10) * 100)]
   \<and> amount_zscore (row (score_row boundary_row 100)) \<noteq> NaN
   \<and> (\<exists>x. fraud_score (score_row boundary_row 100) = Num x \<and> 0 \<le> x \<and> x \<le> 100)"
proof -
  have z: "amount_zscore (row (score_row boundary_row 100)) \<noteq> NaN"
    by (simp add: score_row_def Let_def boundary_row_def)
  have m: "score_row boundary_row 100
      \<in> set [score_row boundary_row 100,
          score_row boundary_row (100 - 2 / (2 + 1 / 10 ^ 10) * 100)]"
    by simp
  from forecast_nonneg_fraud_score_in_range
         [of example_predict example_predictor example_monthly _ example_decision_function
             example_detector "[boundary_row, boundary_row]" "[[Num 1], [Num 3]]"
             "[score_row boundary_row 100,
               score_row boundary_row (100 - 2 / (2 + 1 / 10 ^ 10) * 100)]"]
       example_scores m z
  have "\<exists>x. fraud_score (score_row boundary_row 100) = Num x \<and> 0 \<le> x \<and> x \<le> 100"
    by blast
  with example_prediction example_scores z show ?thesis by blast
qed

lemma sample_std_cases:
  "sample_std xs = NaN \<and> length xs < 2 \<or> (\<exists>s. sample_std xs = Num s \<and> 0 \<le> s \<and> 2 \<le> length xs)"
proof (cases "length xs < 2")
  case True
  then show ?thesis by (simp add: sample_std_def)
next
  case False
  have "0 \<le> sum_list (map (\<lambda>x. (x - mean xs)\<^sup>2) xs)"
    by (rule sum_list_nonneg) auto
  moreover have "0 < real (length xs - 1)" using False by simp
  ultimately have "0 \<le> sum_list (map (\<lambda>x. (x - mean xs)\<^sup>2) xs) / real (length xs - 1)"
    by simp
  then show ?thesis using False by (simp add: sample_std_def)
qed

lemma zscore_Num: "0 \<le> s \<Longrightarrow> zscore a m (Num s) \<noteq> NaN"
  by (simp add: zscore_def)

lemma fd_engineer_row_zscore:
  assumes "2 \<le> length df"
  shows "amount_zscore (fd_engineer_row df t) \<noteq> NaN"
proof -
  define c where "c = sample_std (map amount (filter (\<lambda>u. category u = category t) df))"
  obtain g where g: "sample_std (map amount df) = Num g" "0 \<le> g"
    using sample_std_cases[of "map amount df"] assms by auto
  have "\<exists>s. fillna c (sample_std (map amount df)) = Num s \<and> 0 \<le> s"
    using sample_std_cases[of "map amount (filter (\<lambda>u. category u = category t) df)"] g
    unfolding c_def fillna_def by auto
  then obtain s where s: "fillna c (sample_std (map amount df)) = Num s" "0 \<le> s" by blast
  have "amount_zscore (fd_engineer_row df t)
      = zscore (amount t) (mean (map amount (filter (\<lambda>u. category u = category t) df)))
          (fillna c (sample_std (map amount df)))"
    by (simp add: fd_engineer_row_def Let_def c_def)
  then show ?thesis using zscore_Num[OF s(2)] by (simp add: s(1))
qed

subsection \<open>C10: the fused score never exceeds 53.75\<close>

text \<open>
  C10.  For transactions that went through the feature builder, every fused score that
  is a number is at most 53.75, so that the label Critical is never assigned; with at
  least two transactions every fused score is a number.
\<close>

theorem fraud_score_at_most_53_75:
  assumes "calculate_fraud_scores decision_function det (fd_engineer_features df) X = Inr out"
  shows "\<forall>s \<in> set out.
           (\<forall>x. fraud_score s = Num x \<longrightarrow> x \<le> 215 / 4)
         \<and> risk_level s \<noteq> Some Critical
         \<and> (2 \<le> length df \<longrightarrow> (\<exists>x. fraud_score s = Num x))"
proof
  fix s assume s: "s \<in> set out"
  from assms obtain ml where ml: "length ml = length (fd_engineer_features df)"
      "out = map (\<lambda>(r, m). score_row r m) (zip (fd_engineer_features df) ml)"
      "\<forall>m \<in> set ml. 0 \<le> m \<and> m \<le> 100"
    by (elim calculate_fraud_scores_Inr)
  from s ml obtain r m where rm: "s = score_row r m" "r \<in> set (fd_engineer_features df)"
      "m \<in> set ml"
    by (auto dest: set_zip_leftD set_zip_rightD)
  from rm(2) obtain t where t: "t \<in> set df" "r = fd_engineer_row df t"
    by (auto simp: fd_engineer_features_def)
  have m100: "m \<le> 100" using ml(3) rm(3) by simp
  have le: "x \<le> 215 / 4" if "fraud_score s = Num x" for x
    using that unfolding rm(1) t(2)
    by (intro fused_le[OF m100 fd_engineer_row_ranges[OF t(1)]])
  have rl: "risk_level s = cut_risk (fraud_score s)"
    by (simp add: rm(1) score_row_def Let_def)
  have nc: "risk_level s \<noteq> Some Critical"
  proof (cases "fraud_score s")
    case (Num x)
    then show ?thesis using le[of x] by (simp add: rl cut_risk_Critical)
  qed (simp_all add: rl cut_risk_def)
  have num: "\<exists>x. fraud_score s = Num x" if n: "2 \<le> length df"
  proof -
    have "amount_zscore r \<noteq> NaN"
      unfolding t(2) by (rule fd_engineer_row_zscore[OF n])
    from score_row_range[OF this] show ?thesis unfolding rm(1) by blast
  qed
  show "(\<forall>x. fraud_score s = Num x \<longrightarrow> x \<le> 215 / 4)
         \<and> risk_level s \<noteq> Some Critical
         \<and> (2 \<le> length df \<longrightarrow> (\<exists>x. fraud_score s = Num x))"
    using le nc num by blast
qed

lemma example_rows:
  "fd_engineer_features example_fraud_df =
     [fd_engineer_row example_fraud_df (example_txn 1 2024 1 50),
      fd_engineer_row example_fraud_df (example_txn 2 2024 1 70)]"
  unfolding fd_engineer_features_def
  by (subst (2) example_fraud_df_def) simp

lemma example_pipeline_scores:
  "calculate_fraud_scores example_decision_function example_detector
      (fd_engineer_features example_fraud_df) [[Num 1], [Num 3]]
   = Inr [score_row (fd_engineer_row example_fraud_df (example_txn 1 2024 1 50)) 100,
          score_row (fd_engineer_row example_fraud_df (example_txn 2 2024 1 70))
            (100 - 2 / (2 + 1 / 10 ^ 10) * 100)]"
  unfolding example_rows
  by (simp add: calculate_fraud_scores_def example_detector_def example_decision_function_def
      scaler_transform_def check_array_def scaler_transform_row_def ml_scores_def Let_def)

theorem fraud_score_at_most_53_75_witness:
  "calculate_fraud_scores example_decision_function example_detector
      (fd_engineer_features example_fraud_df) [[Num 1], [Num 3]]
   = Inr [score_row (fd_engineer_row example_fraud_df (example_txn 1 2024 1 50)) 100,
          score_row (fd_engineer_row example_fraud_df (example_txn 2 2024 1 70))
            (100 - 2 / (2 + 1 / 10 ^ 10) * 100)]
   \<and> 2 \<le> length example_fraud_df
   \<and> risk_level (score_row (fd_engineer_row example_fraud_df (example_txn 1 2024 1 50)) 100)
       \<noteq> Some Critical
   \<and> (\<exists>x. fraud_score (score_row (fd_engineer_row example_fraud_df (example_txn 1 2024 1 50)) 100)
            = Num x \<and> x \<le> 215 / 4)"
proof -
  have n: "2 \<le> length example_fraud_df" by (simp add: example_fraud_df_def)
  have m: "score_row (fd_engineer_row example_fraud_df (example_txn 1 2024 1 50)) 100
     \<in> set [score_row (fd_engineer_row example_fraud_df (example_txn 1 2024 1 50)) 100,
          score_row (fd_engineer_row example_fraud_df (example_txn 2 2024 1 70))
            (100 - 2 / (2 + 1 / 10 ^ 10) * 100)]"
    by simp
  from fraud_score_at_most_53_75[OF example_pipeline_scores, THEN bspec, OF m] n
  have "risk_level (score_row (fd_engineer_row example_fraud_df (example_txn 1 2024 1 50)) 100)
       \<noteq> Some Critical
   \<and> (\<exists>x. fraud_score (score_row (fd_engineer_row example_fraud_df (example_txn 1 2024 1 50)) 100)
            = Num x \<and> x \<le> 215 / 4)"
    by blast
  with example_pipeline_scores n show ?thesis by blast
qed

subsection \<open>C7: confidence\<close>

text \<open>
  C7, counterexample.  With two models predicting 1 and 2 the coefficient of variation
  is 100/3 and 100 minus it is 200/3, but the confidence returned is 66.67: the
  function rounds to two decimal places before it returns.
\<close>

theorem confidence_not_exact:
  "map_sum id confidence (predict_next_month example_predict example_predictor example_monthly)
     = Inr (6667 / 100)
   \<and> map_sum id (\<lambda>r. map snd (filter (\<lambda>(k, v). k \<noteq> ''ensemble'') (predictions r)))
       (predict_next_month example_predict example_predictor example_monthly) = Inr [1, 2]
   \<and> max 0 (min 100 (100 - np_std [1, 2] / mean [1, 2] * 100)) = (200 / 3 :: real)"
  by (simp add: example_prediction np_std_1_2 mean_def)

text \<open>
  C7, as amended.  The individual predictions (all entries but \<open>ensemble\<close>) are
  non-negative, so their mean is positive or zero.  When it is positive, the confidence
  returned is 100 minus the coefficient of variation, clamped to \<open>[0,100]\<close> and then
  rounded to two decimal places (hence within 0.005 of the clamped value); when it is 0,
  the confidence is 0.
\<close>

theorem confidence_is_rounded_agreement:
  assumes "predict_next_month predict p monthly_df = Inr res"
  shows "let pv = map snd (filter (\<lambda>(k, v). k \<noteq> ''ensemble'') (predictions res)) in
           list_all (\<lambda>v. 0 \<le> v) pv
         \<and> (0 < mean pv \<longrightarrow>
              confidence res = py_round2 (max 0 (min 100 (100 - np_std pv / mean pv * 100)))
            \<and> \<bar>confidence res - max 0 (min 100 (100 - np_std pv / mean pv * 100))\<bar> \<le> 1 / 200)
         \<and> (mean pv = 0 \<longrightarrow> confidence res = 0)"
proof -
  define pv where "pv = map snd (filter (\<lambda>(k, v). k \<noteq> ''ensemble'') (predictions res))"
  have c: "confidence res = py_round2 (confidence_of pv)"
    using assms unfolding pv_def by (elim predict_next_month_Inr)
  have nn: "list_all (\<lambda>v. 0 \<le> v) pv"
    unfolding pv_def by (rule individual_nonneg[OF assms])
  have pos: "confidence_of pv = max 0 (min 100 (100 - np_std pv / mean pv * 100))"
    if "0 < mean pv"
  proof -
    have "pv \<noteq> []" using that by (auto simp: mean_Nil)
    then show ?thesis using that by (simp add: confidence_of_def Let_def)
  qed
  have zero: "confidence res = 0" if "mean pv = 0"
    using that by (simp add: c confidence_of_def Let_def round_half_even_0)
  have close: "confidence res = py_round2 (max 0 (min 100 (100 - np_std pv / mean pv * 100)))
            \<and> \<bar>confidence res - max 0 (min 100 (100 - np_std pv / mean pv * 100))\<bar> \<le> 1 / 200"
    if "0 < mean pv"
    unfolding c pos[OF that, symmetric] using py_round2_close[of "confidence_of pv"] by simp
  show ?thesis
    unfolding Let_def pv_def[symmetric]
    using nn zero close by blast
qed

theorem confidence_is_rounded_agreement_witness:
  "predict_next_month example_predict example_predictor example_monthly =
     Inr \<lparr>predictions = [(''linear'', 1), (''ridge'', 2), (''ensemble'', 2 / 5)],
          confidence = 6667 / 100, trend = ''increasing'', best_model = ''linear''\<rparr>
   \<and> 0 < mean [1, 2 :: real]
   \<and> py_round2 (max 0 (min 100 (100 - np_std [1, 2] / mean [1, 2] * 100))) = 6667 / 100"
proof -
  have "0 < mean [1, 2 :: real]" by (simp add: mean_def)
  with confidence_is_rounded_agreement[OF example_prediction] example_prediction
  show ?thesis by (simp add: Let_def)
qed

subsection \<open>C8: trend label\<close>

text \<open>
  C8.  The trend is \<open>insufficient_data\<close> with fewer than three months.  With at least
  six months of non-negative totals (amounts are positive in the data model; the column
  has one entry per row of the frame) it is
  \<open>increasing\<close> iff the mean of the last three months exceeds 1.10 times the mean of
  the three months before, \<open>decreasing\<close> iff it is below 0.90 times that mean, and
  \<open>stable\<close> otherwise.  With three to five months the recent mean is compared with
  itself and the label is \<open>stable\<close>.
\<close>

theorem trend_label:
  assumes "predict_next_month predict p monthly_df = Inr res"
  shows "(nrows monthly_df < 3 \<longrightarrow> trend res = ''insufficient_data'')
       \<and> (frame_col monthly_df ''total_amount'' = Some col \<and> length col = nrows monthly_df
            \<and> list_all (\<lambda>x. 0 \<le> x) (map num_of col) \<longrightarrow>
            (6 \<le> nrows monthly_df \<longrightarrow>
               (trend res = ''increasing''
                  \<longleftrightarrow> recent_mean (map num_of col) > 11 / 10 * older_mean (map num_of col))
             \<and> (trend res = ''decreasing''
                  \<longleftrightarrow> recent_mean (map num_of col) < 9 / 10 * older_mean (map num_of col))
             \<and> (trend res = ''stable''
                  \<longleftrightarrow> \<not> recent_mean (map num_of col) > 11 / 10 * older_mean (map num_of col)
                    \<and> \<not> recent_mean (map num_of col) < 9 / 10 * older_mean (map num_of col)))
          \<and> (3 \<le> nrows monthly_df \<and> nrows monthly_df < 6 \<longrightarrow> trend res = ''stable''))"
proof -
  define t where "t = map num_of col"
  have tr: "trend_of monthly_df = Inr (trend res)"
    using assms by (elim predict_next_month_Inr)
  have short: "trend res = ''insufficient_data''" if "nrows monthly_df < 3"
    using that tr by (simp add: trend_of_def)
  have tcol: "trend_of monthly_df =
      Inr (if mean (drop (length t - 3) t)
               > (if 6 \<le> length t then mean (take 3 (drop (length t - 6) t))
                  else mean (drop (length t - 3) t)) * (11 / 10)
           then ''increasing''
           else if mean (drop (length t - 3) t)
               < (if 6 \<le> length t then mean (take 3 (drop (length t - 6) t))
                  else mean (drop (length t - 3) t)) * (9 / 10)
           then ''decreasing'' else ''stable'')"
    if c: "frame_col monthly_df ''total_amount'' = Some col" "length col = nrows monthly_df"
      and n3: "3 \<le> nrows monthly_df"
  proof -
    have "list_all is_num col"
      using tr c n3 by (auto simp: trend_of_def split: if_splits)
    then show ?thesis
      using c n3 by (simp add: trend_of_def Let_def t_def)
  qed
  have long: "(trend res = ''increasing'' \<longleftrightarrow> recent_mean t > 11 / 10 * older_mean t)
          \<and> (trend res = ''decreasing'' \<longleftrightarrow> recent_mean t < 9 / 10 * older_mean t)
          \<and> (trend res = ''stable''
               \<longleftrightarrow> \<not> recent_mean t > 11 / 10 * older_mean t
                 \<and> \<not> recent_mean t < 9 / 10 * older_mean t)"
    if c: "frame_col monthly_df ''total_amount'' = Some col" "length col = nrows monthly_df"
      and n: "6 \<le> nrows monthly_df" and nn: "list_all (\<lambda>x. 0 \<le> x) t"
  proof -
    have len: "6 \<le> length t" using n c(2) by (simp add: t_def)
    have "list_all (\<lambda>x. 0 \<le> x) (take 3 (drop 3 (rev t)))"
      using nn by (auto simp: list_all_iff dest!: in_set_takeD in_set_dropD)
    then have o: "0 \<le> older_mean t" unfolding older_mean_def by (rule mean_nonneg)
    have "Inr (trend res) = (Inr (if recent_mean t > older_mean t * (11 / 10) then ''increasing''
         else if recent_mean t < older_mean t * (9 / 10) then ''decreasing'' else ''stable'')
         :: string + string)"
      using tcol[OF c] n len mean_older[OF len] mean_recent[of t] tr by simp
    then have e: "trend res =
        (if recent_mean t > older_mean t * (11 / 10) then ''increasing''
         else if recent_mean t < older_mean t * (9 / 10) then ''decreasing'' else ''stable'')"
      by simp
    show ?thesis using o by (auto simp: e mult.commute)
  qed
  have mid: "trend res = ''stable''"
    if c: "frame_col monthly_df ''total_amount'' = Some col" "length col = nrows monthly_df"
      and n: "3 \<le> nrows monthly_df" "nrows monthly_df < 6"
      and nn: "list_all (\<lambda>x. 0 \<le> x) t"
  proof -
    have len: "\<not> 6 \<le> length t" using n c(2) by (simp add: t_def)
    have "list_all (\<lambda>x. 0 \<le> x) (drop (length t - 3) t)"
      using nn by (auto simp: list_all_iff dest!: in_set_dropD)
    then have "0 \<le> mean (drop (length t - 3) t)" by (rule mean_nonneg)
    then have "trend_of monthly_df = Inr ''stable''"
      using tcol[OF c n(1)] len by simp
    then show ?thesis using tr by simp
  qed
  show ?thesis using short long mid unfolding t_def by blast
qed

theorem trend_label_witness:
  "predict_next_month example_predict example_predictor example_monthly =
     Inr \<lparr>predictions = [(''linear'', 1), (''ridge'', 2), (''ensemble'', 2 / 5)],
          confidence = 6667 / 100, trend = ''increasing'', best_model = ''linear''\<rparr>
   \<and> frame_col example_monthly ''total_amount'' = Some (map Num [100, 100, 100, 100, 100, 200])
   \<and> length (map Num [100, 100, 100, 100, 100, 200]) = nrows example_monthly
   \<and> 6 \<le> nrows example_monthly
   \<and> list_all (\<lambda>x. 0 \<le> x) (map num_of (map Num [100, 100, 100, 100, 100, 200]))
   \<and> recent_mean (map num_of (map Num [100, 100, 100, 100, 100, 200]))
       > 11 / 10 * older_mean (map num_of (map Num [100, 100, 100, 100, 100, 200]))"
proof -
  have a: "length (map Num [100, 100, 100, 100, 100, 200]) = nrows example_monthly"
    "6 \<le> nrows example_monthly"
    "list_all (\<lambda>x. 0 \<le> x) (map num_of (map Num [100, 100, 100, 100, 100, 200]))"
    by (simp_all add: example_monthly_def nrows_def)
  have "trend \<lparr>predictions = [(''linear'', 1), (''ridge'', 2), (''ensemble'', 2 / 5)],
          confidence = 6667 / 100, trend = ''increasing'', best_model = ''linear''\<rparr>
      = ''increasing''" by simp
  with trend_label[OF example_prediction, of "map Num [100, 100, 100, 100, 100, 200]"] ex_total a
  have "recent_mean (map num_of (map Num [100, 100, 100, 100, 100, 200]))
       > 11 / 10 * older_mean (map num_of (map Num [100, 100, 100, 100, 100, 200]))"
    by blast
  with example_prediction ex_total a show ?thesis by blast
qed

lemma length_shift: "length (shift k c) = length c"
  by (simp add: shift_def)

lemma nth_shift: "i < length c \<Longrightarrow> shift k c ! i = (if i < k then NaN else c ! (i - k))"
  by (simp add: shift_def nth_append)

lemma length_rolling: "length (rolling w f xs) = length xs"
  by (simp add: rolling_def)

lemma nth_rolling:
  "i < length xs \<Longrightarrow>
   rolling w f xs ! i = (if i + 1 < w then NaN else f (take w (drop (i + 1 - w) xs)))"
  by (simp add: rolling_def)

lemma length_pct_change: "length (pct_change xs) = length xs"
  by (simp add: pct_change_def length_shift)

lemma nth_pct_change:
  "i < length xs \<Longrightarrow>
   pct_change xs ! i = (if i = 0 then NaN else pct_step (xs ! i) (Num (xs ! (i - 1))))"
  by (simp add: pct_change_def length_shift nth_shift pct_step_def)

lemma pct_step_Num: "pct_step x (Num p) = NaN \<longleftrightarrow> x = 0 \<and> p = 0"
  by (simp add: pct_step_def)

lemma sample_std_NaN: "sample_std xs = NaN \<longleftrightarrow> length xs < 2"
  by (simp add: sample_std_def)

lemma series_mean_NaN: "series_mean xs = NaN \<longleftrightarrow> xs = []"
  by (simp add: series_mean_def)

lemma series_max_NaN: "series_max xs = NaN \<longleftrightarrow> xs = []"
  by (simp add: series_max_def split: list.splits)

lemma series_min_NaN: "series_min xs = NaN \<longleftrightarrow> xs = []"
  by (simp add: series_min_def split: list.splits)

lemma nrows_monthly_frame: "nrows (monthly_frame df) = length (month_keys df)"
  by (simp add: monthly_frame_def nrows_def Let_def)

lemma nrows_dropna:
  "df \<noteq> [] \<Longrightarrow> nrows (dropna df) = length (filter (\<lambda>i. \<not> row_has_na df i) [0..<nrows df])"
  by (cases df) (auto simp: dropna_def nrows_def Let_def)

lemma dropna_no_nan:
  assumes "(name, c) \<in> set (dropna df)"
  shows "NaN \<notin> set c"
proof -
  from assms obtain c0 where c0: "(name, c0) \<in> set df"
    and c: "c = map (\<lambda>i. c0 ! i) (filter (\<lambda>i. \<not> row_has_na df i) [0..<nrows df])"
    by (auto simp: dropna_def Let_def)
  have "c0 ! i \<noteq> NaN" if "\<not> row_has_na df i" for i
    using that c0 by (auto simp: row_has_na_def list_ex_iff)
  then show ?thesis by (fastforce simp: c)
qed

lemma monthly_frame_nonempty: "monthly_frame df \<noteq> []"
  by (simp add: monthly_frame_def Let_def)

lemma lags_range: "[1..<7] = [1, 2, 3, 4, 5, 6 :: nat]"
  by (simp add: upt_rec)

lemma early_rows_dropped:
  assumes "i < length (month_keys df)" "i < 6"
  shows "row_has_na (monthly_frame df) i"
proof -
  have "(''lag_'' @ str_digit 6,
         shift 6 (map Num (map sum_list (map (month_amounts df) (month_keys df)))))
        \<in> set (map (\<lambda>lag. (''lag_'' @ str_digit lag,
                shift lag (map Num (map sum_list (map (month_amounts df) (month_keys df))))))
             [1..<7])"
    unfolding set_map by (rule image_eqI[of _ _ 6]) simp_all
  then have "(''lag_'' @ str_digit 6,
         shift 6 (map Num (map sum_list (map (month_amounts df) (month_keys df)))))
        \<in> set (monthly_frame df)"
    unfolding monthly_frame_def Let_def set_append by blast
  moreover have "shift 6 (map Num (map sum_list (map (month_amounts df) (month_keys df)))) ! i = NaN"
    using assms by (simp add: nth_shift)
  ultimately show ?thesis
    unfolding row_has_na_def list_ex_iff by blast
qed

lemma single_txn_rows_dropped:
  assumes "i < length (month_keys df)" "length (month_amounts df (month_keys df ! i)) < 2"
  shows "row_has_na (monthly_frame df) i"
proof -
  have "(''std_amount'', map sample_std (map (month_amounts df) (month_keys df)))
        \<in> set (monthly_frame df)"
    by (simp add: monthly_frame_def Let_def)
  moreover have "map sample_std (map (month_amounts df) (month_keys df)) ! i = NaN"
    using assms by (simp add: sample_std_NaN)
  ultimately show ?thesis
    unfolding row_has_na_def list_ex_iff by blast
qed

lemma sum_list_pos_real:
  fixes xs :: "real list"
  assumes "xs \<noteq> []" "\<forall>x \<in> set xs. 0 < x"
  shows "0 < sum_list xs"
  using assms by (induction xs) (auto intro: add_pos_nonneg sum_list_nonneg less_imp_le)

lemma late_rows_kept:
  assumes i: "6 \<le> i" "i < length (month_keys df)"
    and two: "\<forall>k \<in> set (month_keys df). 2 \<le> length (month_amounts df k)"
    and pos: "\<forall>t \<in> set df. 0 < amount t"
  shows "\<not> row_has_na (monthly_frame df) i"
proof -
  define keys where "keys = month_keys df"
  define groups where "groups = map (month_amounts df) keys"
  define T where "T = map sum_list groups"
  have N: "i < length keys" "length groups = length keys" "length T = length keys"
    using i by (simp_all add: keys_def groups_def T_def)
  have g2: "2 \<le> length (groups ! j)" if "j < length keys" for j
    using two that by (simp add: groups_def keys_def)
  have Tpos: "0 < T ! j" if "j < length keys" for j
  proof -
    have "groups ! j \<noteq> []" using g2[OF that] by auto
    moreover have "\<forall>x \<in> set (groups ! j). 0 < x"
      using pos that by (auto simp: groups_def month_amounts_def)
    ultimately show ?thesis using that N by (simp add: T_def sum_list_pos_real)
  qed
  have T0: "T ! j \<noteq> 0" if "j < length keys" for j using Tpos[OF that] by simp
  have win: "length (take w (drop (i + 1 - w) T)) = w" if "w \<le> 7" "0 < w" for w
    using that i N by auto
  have frame: "monthly_frame df =
      [(''year_month'', map (\<lambda>k. Num (real k)) keys),
          (''total_amount'', map Num T),
          (''avg_amount'', map Num (map mean groups)),
          (''transaction_count'', map Num (map (\<lambda>g. real (length g)) groups)),
          (''std_amount'', map sample_std groups),
          (''max_amount'', map series_max groups),
          (''min_amount'', map series_min groups),
          (''num_transactions'', map Num (map (\<lambda>g. real (length g)) groups)),
          (''date'', map (\<lambda>k. Num (real k)) keys),
          (''year'', map (\<lambda>k. Num (real (k div 12))) keys),
          (''month'', map (\<lambda>m. Num (real m)) (map (\<lambda>k. k mod 12 + 1) keys)),
          (''quarter'', map (\<lambda>q. Num (real q)) (map (\<lambda>m. (m - 1) div 3 + 1) (map (\<lambda>k. k mod 12 + 1) keys))),
          (''is_q4'', map (\<lambda>q. flag (q = 4)) (map (\<lambda>m. (m - 1) div 3 + 1) (map (\<lambda>k. k mod 12 + 1) keys))),
          (''is_year_start'', map (\<lambda>m. flag (m \<le> 2)) (map (\<lambda>k. k mod 12 + 1) keys)),
          (''is_year_end'', map (\<lambda>m. flag (11 \<le> m)) (map (\<lambda>k. k mod 12 + 1) keys))]
         @ map (\<lambda>lag. (''lag_'' @ str_digit lag, shift lag (map Num T))) [1..<7]
         @ concat (map (\<lambda>w. [(''rolling_mean_'' @ str_digit w, rolling w series_mean T),
                               (''rolling_std_'' @ str_digit w, rolling w sample_std T),
                               (''rolling_max_'' @ str_digit w, rolling w series_max T),
                               (''rolling_min_'' @ str_digit w, rolling w series_min T)])
                     [2, 3, 6])
         @ [(''mom_growth'', pct_change T),
            (''mom_growth_lag1'', shift 1 (pct_change T)),
            (''avg_txn_lag1'', shift 1 (map Num (map mean groups))),
            (''txn_count_lag1'', shift 1 (map Num (map (\<lambda>g. real (length g)) groups)))]"
    unfolding monthly_frame_def Let_def keys_def groups_def T_def by (rule refl)
  have "c ! i \<noteq> NaN" if "(name, c) \<in> set (monthly_frame df)" for name c
  proof -
    have w2: "take 2 (drop (i - Suc 0) T) \<noteq> []" "take 3 (drop (i - 2) T) \<noteq> []"
      "take 6 (drop (i - 5) T) \<noteq> []"
      using i N by auto
    have l2: "\<not> length (take 2 (drop (i - Suc 0) T)) < 2" "\<not> length (take 3 (drop (i - 2) T)) < 2"
      "\<not> length (take 6 (drop (i - 5) T)) < 2"
      using i N by auto
    from that show ?thesis
      unfolding frame
      using i N g2[of i] T0[of i] T0[of "i - 1"] T0[of "i - 2"] w2 l2
      by (auto simp: nth_shift nth_rolling nth_pct_change length_pct_change flag_def
          sample_std_NaN series_mean_NaN series_max_NaN series_min_NaN pct_step_Num)
  qed
  then show ?thesis
    unfolding row_has_na_def list_ex_iff by blast
qed

lemma example_txn_simps:
  "year_month (example_txn i y m a) = y * 12 + (m - 1)"
  "amount (example_txn i y m a) = a"
  by (simp_all add: example_txn_def example_ts_def year_month_def)

lemma length_filter_ge: "length (filter (\<lambda>i. k \<le> i) [0..<n]) = n - k"
  by (induction n) (auto simp: Suc_diff_le)

lemma length_month_keys: "length (month_keys df) = card (year_month ` set df)"
  by (simp add: month_keys_def length_remdups_card_conv)

lemma month_keys_distinct:
  "distinct (map year_month df) \<Longrightarrow> length (month_keys df) = length df"
  by (simp add: month_keys_def distinct_remdups_id)

lemma month_amounts_distinct:
  "distinct (map year_month df) \<Longrightarrow> length (month_amounts df k) \<le> 1"
  by (induction df) (auto simp: month_amounts_def filter_empty_conv intro: rev_image_eqI)

lemma single_months_all_dropped:
  assumes "distinct (map year_month df)"
  shows "nrows (engineer_features df) = 0"
proof -
  have "row_has_na (monthly_frame df) i" if "i < length (month_keys df)" for i
    using that month_amounts_distinct[OF assms, of "month_keys df ! i"]
    by (intro single_txn_rows_dropped) simp_all
  then have "filter (\<lambda>i. \<not> row_has_na (monthly_frame df) i) [0..<length (month_keys df)] = []"
    by (simp add: filter_empty_conv)
  then show ?thesis
    by (simp add: engineer_features_def nrows_dropna monthly_frame_nonempty nrows_monthly_frame)
qed

subsection \<open>C2: rows of the forecast feature frame\<close>

text \<open>
  C2, counterexample.  Seven calendar months with one transaction each: the claim
  promises \<open>max(0, 7 - 6) = 1\<close> row, but the sample standard deviation of a single
  amount is NaN, so \<open>std_amount\<close> is undefined in every month and \<open>dropna\<close>
  removes every row.
\<close>

theorem single_transaction_months_lose_rows:
  "length (month_keys single_txn_months) = 7
   \<and> card (year_month ` set single_txn_months) = 7
   \<and> nrows (engineer_features single_txn_months) = 0"
proof -
  have d: "distinct (map year_month single_txn_months)"
    by (simp add: single_txn_months_def example_txn_simps)
  have "length (month_keys single_txn_months) = 7"
    by (simp add: month_keys_distinct[OF d]) (simp add: single_txn_months_def)
  then show ?thesis
    using single_months_all_dropped[OF d] length_month_keys[of single_txn_months] by simp
qed

text \<open>
  C2, as amended.  For a series covering N calendar months in which every month has at
  least two transactions and all amounts are positive, \<open>engineer_features\<close> returns
  exactly \<open>max(0, N - 6)\<close> rows, and no column of the result holds a NaN.
\<close>

theorem forecast_feature_rows:
  assumes "\<forall>k \<in> set (month_keys df). 2 \<le> length (month_amounts df k)"
      and "\<forall>t \<in> set df. 0 < amount t"
  shows "length (month_keys df) = card (year_month ` set df)
       \<and> nrows (engineer_features df) = length (month_keys df) - 6
       \<and> (\<forall>x \<in> set (engineer_features df).
             NaN \<notin> set (snd x) \<and> length (snd x) = length (month_keys df) - 6)"
proof -
  let ?F = "monthly_frame df" and ?N = "length (month_keys df)"
  have iff: "(\<not> row_has_na ?F i) = (6 \<le> i)" if "i \<in> set [0..<?N]" for i
    using that early_rows_dropped[of i df] late_rows_kept[OF _ _ assms, of i]
    by (cases "i < 6") auto
  have keep: "filter (\<lambda>i. \<not> row_has_na ?F i) [0..<?N] = filter (\<lambda>i. 6 \<le> i) [0..<?N]"
    by (rule filter_cong[OF refl iff])
  have n: "nrows (engineer_features df) = ?N - 6"
    by (simp add: engineer_features_def nrows_dropna monthly_frame_nonempty
        nrows_monthly_frame keep length_filter_ge)
  have cols: "NaN \<notin> set (snd x) \<and> length (snd x) = ?N - 6"
    if "x \<in> set (engineer_features df)" for x
  proof -
    obtain name c where x: "x = (name, c)" by (cases x)
    have "NaN \<notin> set c"
      using that unfolding x engineer_features_def by (rule dropna_no_nan)
    moreover have "length c = ?N - 6"
      using that unfolding x engineer_features_def dropna_def Let_def
      by (auto simp: nrows_monthly_frame keep length_filter_ge)
    ultimately show ?thesis by (simp add: x)
  qed
  show ?thesis using n cols length_month_keys by blast
qed

lemma two_txn_keys: "month_keys two_txn_months = [24288, 24289, 24290, 24291, 24292, 24293, 24294]"
  by (simp add: month_keys_def two_txn_months_def example_txn_simps)

lemma two_txn_groups:
  "list_all (\<lambda>k. 2 \<le> length (month_amounts two_txn_months k)) (month_keys two_txn_months)"
  unfolding two_txn_keys
  by (simp add: month_amounts_def two_txn_months_def example_txn_simps)

lemma two_txn_positive: "list_all (\<lambda>t. 0 < amount t) two_txn_months"
  by (simp add: two_txn_months_def example_txn_simps)

theorem forecast_feature_rows_witness:
  "list_all (\<lambda>k. 2 \<le> length (month_amounts two_txn_months k)) (month_keys two_txn_months)
   \<and> list_all (\<lambda>t. 0 < amount t) two_txn_months
   \<and> length (month_keys two_txn_months) = 7
   \<and> nrows (engineer_features two_txn_months) = 1"
proof -
  have n: "length (month_keys two_txn_months) = 7" by (simp add: two_txn_keys)
  from forecast_feature_rows[of two_txn_months] two_txn_groups two_txn_positive
  have "nrows (engineer_features two_txn_months) = length (month_keys two_txn_months) - 6"
    by (simp add: list_all_iff)
  with n two_txn_groups two_txn_positive show ?thesis by simp
qed

lemma map_of_dict_set: "map_of (dict_set k v d) k' = (if k' = k then Some v else map_of d k')"
  by (induction d) auto

lemma fit_models_Inr:
  assumes "fit_models fit predict metrics tune X_train y_train X_test y_test names ms rs
             = Inr (ms', rs')"
      and "distinct names"
  shows "(\<forall>n \<in> set names. \<exists>m. map_of ms' n = Some m \<and> fit n tune X_train y_train = Inr m)
       \<and> (\<forall>n. n \<notin> set names \<longrightarrow> map_of ms' n = map_of ms n)"
  using assms
proof (induction names arbitrary: ms rs)
  case Nil
  then show ?case by simp
next
  case (Cons name names)
  from Cons.prems(1) obtain model r where
    f: "fit name tune X_train y_train = Inr model"
    and rest: "fit_models fit predict metrics tune X_train y_train X_test y_test names
                 (dict_set name model ms) (dict_set name r rs) = Inr (ms', rs')"
    by (auto split: sum.splits)
  from Cons.IH[OF rest] Cons.prems(2)
  have ih: "\<forall>n \<in> set names. \<exists>m. map_of ms' n = Some m \<and> fit n tune X_train y_train = Inr m"
    "\<forall>n. n \<notin> set names \<longrightarrow> map_of ms' n = map_of (dict_set name model ms) n"
    by auto
  have "map_of ms' name = Some model"
    using ih(2) Cons.prems(2) by (simp add: map_of_dict_set)
  then show ?case using ih f by (auto simp: map_of_dict_set)
qed

lemma fit_models_total:
  assumes "\<And>n X y. \<not> isl (fit n tune X y)" "\<And>y q. \<not> isl (metrics y q)"
  shows "\<not> isl (fit_models fit predict metrics tune X_train y_train X_test y_test names ms rs)"
proof (induction names arbitrary: ms rs)
  case Nil
  then show ?case by simp
next
  case (Cons name names)
  obtain model where f: "fit name tune X_train y_train = Inr model"
    using assms(1)[of name X_train y_train] by (cases "fit name tune X_train y_train") auto
  obtain r where m: "metrics y_test (map (predict model) X_test) = Inr r"
    using assms(2)[of y_test "map (predict model) X_test"]
    by (cases "metrics y_test (map (predict model) X_test)") auto
  show ?case using Cons.IH by (simp add: f m)
qed

lemma distinct_model_names: "distinct (model_names h)"
  by (simp add: model_names_def)

lemma train_Inr:
  assumes "train_with_hyperparameter_tuning fit predict metrics has_xgboost p X y tune
             = Inr (p', results)"
  obtains Xr ms rs where
    "check_array X = Inr Xr"
    "list_all is_num y"
    "fit_models fit predict metrics tune
        (take (split_idx (length X)) (map (scaler_transform_row (scaler_fit Xr)) Xr))
        (take (split_idx (length X)) (map num_of y))
        (drop (split_idx (length X)) (map (scaler_transform_row (scaler_fit Xr)) Xr))
        (drop (split_idx (length X)) (map num_of y))
        (model_names has_xgboost) (models p) [] = Inr (ms, rs)"
    "p' = p\<lparr>models := ms, scaler := Some (scaler_fit Xr), is_trained := True\<rparr>"
  using assms
  by (auto simp: train_with_hyperparameter_tuning_def scaler_fit_transform_def Let_def
      split: sum.splits if_splits prod.splits)

lemma train_total:
  assumes "\<And>n X y. \<not> isl (fit n tune X y)" "\<And>y q. \<not> isl (metrics y q)"
    and "check_array X = Inr Xr" "list_all is_num y"
  shows "\<exists>ms results.
           train_with_hyperparameter_tuning fit predict metrics has_xgboost p X y tune
             = Inr (p\<lparr>models := ms, scaler := Some (scaler_fit Xr), is_trained := True\<rparr>, results)"
proof -
  let ?Xs = "map (scaler_transform_row (scaler_fit Xr)) Xr" and ?k = "split_idx (length X)"
  obtain ms rs where fm: "fit_models fit predict metrics tune (take ?k ?Xs)
        (take ?k (map num_of y)) (drop ?k ?Xs) (drop ?k (map num_of y))
        (model_names has_xgboost) (models p) [] = Inr (ms, rs)"
    using fit_models_total[where fit = fit and tune = tune and metrics = metrics
        and predict = predict and X_train = "take ?k ?Xs" and y_train = "take ?k (map num_of y)"
        and X_test = "drop ?k ?Xs" and y_test = "drop ?k (map num_of y)"
        and names = "model_names has_xgboost" and ms = "models p" and rs = "[]",
        OF assms(1,2)]
    by (cases "fit_models fit predict metrics tune (take ?k ?Xs)
        (take ?k (map num_of y)) (drop ?k ?Xs) (drop ?k (map num_of y))
        (model_names has_xgboost) (models p) []") auto
  obtain r where m: "metrics (drop ?k (map num_of y))
        (ensemble_predict predict (p\<lparr>models := ms, scaler := Some (scaler_fit Xr)\<rparr>)
           (drop ?k ?Xs)) = Inr r"
    using assms(2)[of "drop ?k (map num_of y)" "ensemble_predict predict
        (p\<lparr>models := ms, scaler := Some (scaler_fit Xr)\<rparr>) (drop ?k ?Xs)"]
    by (cases "metrics (drop ?k (map num_of y))
        (ensemble_predict predict (p\<lparr>models := ms, scaler := Some (scaler_fit Xr)\<rparr>)
           (drop ?k ?Xs))") auto
  have "train_with_hyperparameter_tuning fit predict metrics has_xgboost p X y tune
      = Inr (p\<lparr>models := ms, scaler := Some (scaler_fit Xr), is_trained := True\<rparr>,
             dict_set ''ensemble'' r rs)"
    by (simp add: train_with_hyperparameter_tuning_def scaler_fit_transform_def Let_def
        assms(3,4) fm m)
  then show ?thesis by blast
qed

lemma split_idx_eq: "split_idx n = 4 * n div 5"
proof -
  have "real n * (8 / 10) = real (4 * n) / real 5" by simp
  then have "\<lfloor>real n * (8 / 10)\<rfloor> = int (4 * n div 5)"
    by (simp only: floor_divide_of_nat_eq)
  then show ?thesis by (simp add: split_idx_def)
qed

lemma individual_predictions:
  "map snd (filter (\<lambda>(k, v). k \<noteq> key)
       (dict_set key e (map (\<lambda>(name, model). (name, f model)) d)))
     = map (\<lambda>(name, model). f model) (filter (\<lambda>(k, v). k \<noteq> key) d)"
  unfolding filter_dict_set by (induction d) auto

subsection \<open>C3: where the standardization statistics come from\<close>

text \<open>
  C3, counterexample.  Two feature matrices of five rows that agree on the training
  split (the first four rows) and differ only in the held-out last row: training stores
  the scaler mean 4 for one and 6 for the other, so the statistics do depend on the
  test row.
\<close>

theorem scaler_sees_test_rows:
  "take (split_idx 5) (leaky_matrix 10) = take (split_idx 5) (leaky_matrix 20)
   \<and> map_sum id (\<lambda>(p, r). map_option sc_mean (scaler p))
        (train_with_hyperparameter_tuning always_fit example_predict no_metrics False
           (init_predictor False) (leaky_matrix 10) (map Num [1, 2, 3, 4, 5]) False)
       = Inr (Some [4])
   \<and> map_sum id (\<lambda>(p, r). map_option sc_mean (scaler p))
        (train_with_hyperparameter_tuning always_fit example_predict no_metrics False
           (init_predictor False) (leaky_matrix 20) (map Num [1, 2, 3, 4, 5]) False)
       = Inr (Some [6])"
proof -
  have k: "split_idx 5 = 4" by (simp add: split_idx_eq)
  have t: "take (split_idx 5) (leaky_matrix 10) = take (split_idx 5) (leaky_matrix 20)"
    by (simp add: k leaky_matrix_def)
  have c: "check_array (leaky_matrix v) = Inr [[1], [2], [3], [4], [v]]" for v
    by (simp add: check_array_def leaky_matrix_def)
  have y: "list_all is_num (map Num [1, 2, 3, 4, 5])" by simp
  have f: "\<not> isl (always_fit n False X y)" for n X y by (simp add: always_fit_def)
  have m: "\<not> isl (no_metrics y q)" for y q by (simp add: no_metrics_def)
  have mean: "sc_mean (scaler_fit [[1], [2], [3], [4], [v]]) = [(10 + v) / 5]" for v
    by (simp add: scaler_fit_def column_of_def mean_def)
  have "map_sum id (\<lambda>(p, r). map_option sc_mean (scaler p))
        (train_with_hyperparameter_tuning always_fit example_predict no_metrics False
           (init_predictor False) (leaky_matrix v) (map Num [1, 2, 3, 4, 5]) False)
       = Inr (Some [(10 + v) / 5])" for v
    using train_total[where fit = always_fit and metrics = no_metrics and tune = False
        and predict = example_predict and has_xgboost = False and p = "init_predictor False",
        OF f m c y, of v]
    by (auto simp: mean)
  from this[of 10] this[of 20] t show ?thesis by simp
qed

text \<open>
  C3, as amended.  When training returns, the stored scaler is the one fitted on all
  rows of the feature matrix; every model was fitted on the first \<open>4n div 5\<close> rows of
  the matrix standardized with these statistics; and the individual predictions of
  \<open>predict_next_month\<close> are made on the last row standardized with the same
  statistics.
\<close>

theorem scaler_fit_on_all_rows:
  assumes "train_with_hyperparameter_tuning fit predict metrics has_xgboost p X y tune
             = Inr (p', results)"
  shows "\<exists>Xr. check_array X = Inr Xr
           \<and> scaler p' = Some (scaler_fit Xr)
           \<and> split_idx (length X) = 4 * length X div 5
           \<and> (\<forall>name \<in> set (model_names has_xgboost).
                 \<exists>m. map_of (models p') name = Some m
                   \<and> fit name tune
                        (take (split_idx (length X)) (map (scaler_transform_row (scaler_fit Xr)) Xr))
                        (take (split_idx (length X)) (map num_of y)) = Inr m)
           \<and> (\<forall>df res. predict_next_month predict p' df = Inr res \<longrightarrow>
                 (\<exists>cols. select_columns df (feature_columns p') = Inr cols
                    \<and> map snd (filter (\<lambda>(k, v). k \<noteq> ''ensemble'') (predictions res))
                      = map (\<lambda>(name, model).
                               max 0 (predict model
                                 (scaler_transform_row (scaler_fit Xr) (map num_of (map last cols)))))
                          (filter (\<lambda>(k, v). k \<noteq> ''ensemble'') (models p'))))"
proof -
  from assms obtain Xr ms rs where
    c: "check_array X = Inr Xr" and
    fm: "fit_models fit predict metrics tune
        (take (split_idx (length X)) (map (scaler_transform_row (scaler_fit Xr)) Xr))
        (take (split_idx (length X)) (map num_of y))
        (drop (split_idx (length X)) (map (scaler_transform_row (scaler_fit Xr)) Xr))
        (drop (split_idx (length X)) (map num_of y))
        (model_names has_xgboost) (models p) [] = Inr (ms, rs)" and
    p': "p' = p\<lparr>models := ms, scaler := Some (scaler_fit Xr), is_trained := True\<rparr>"
    by (elim train_Inr)
  have sc: "scaler p' = Some (scaler_fit Xr)" by (simp add: p')
  have fitted: "\<forall>name \<in> set (model_names has_xgboost).
                 \<exists>m. map_of (models p') name = Some m
                   \<and> fit name tune
                        (take (split_idx (length X)) (map (scaler_transform_row (scaler_fit Xr)) Xr))
                        (take (split_idx (length X)) (map num_of y)) = Inr m"
    using fit_models_Inr[OF fm distinct_model_names] by (simp add: p')
  have infer: "\<exists>cols. select_columns df (feature_columns p') = Inr cols
                    \<and> map snd (filter (\<lambda>(k, v). k \<noteq> ''ensemble'') (predictions res))
                      = map (\<lambda>(name, model).
                               max 0 (predict model
                                 (scaler_transform_row (scaler_fit Xr) (map num_of (map last cols)))))
                          (filter (\<lambda>(k, v). k \<noteq> ''ensemble'') (models p'))"
    if r: "predict_next_month predict p' df = Inr res" for df res
  proof -
    from r obtain cols Xs where
      cols: "select_columns df (feature_columns p') = Inr cols" and
      tr: "scaler_transform (scaler p') (last_row_values df cols) = Inr Xs" and
      pr: "predictions res =
       dict_set ''ensemble''
         (max 0 (sum_list (map (\<lambda>(name, pred). dict_get (ensemble_weights p') name 0 * pred)
            (map (\<lambda>(name, model). (name, max 0 (predict model (hd Xs)))) (models p')))))
         (map (\<lambda>(name, model). (name, max 0 (predict model (hd Xs)))) (models p'))"
      by (elim predict_next_month_Inr)
    have "hd Xs = scaler_transform_row (scaler_fit Xr) (map num_of (map last cols))"
      using tr unfolding sc
      by (auto simp: scaler_transform_def check_array_def last_row_values_def
          split: if_splits sum.splits)
    then show ?thesis
      using cols unfolding pr individual_predictions by simp
  qed
  show ?thesis using c sc split_idx_eq fitted infer by blast
qed

theorem scaler_fit_on_all_rows_witness:
  "\<exists>p' results.
     train_with_hyperparameter_tuning always_fit example_predict no_metrics False
        (init_predictor False) (leaky_matrix 10) (map Num [1, 2, 3, 4, 5]) False
       = Inr (p', results)
     \<and> scaler p' = Some (scaler_fit [[1], [2], [3], [4], [10]])
     \<and> split_idx (length (leaky_matrix 10)) = 4"
proof -
  have c: "check_array (leaky_matrix 10) = Inr [[1], [2], [3], [4], [10]]"
    by (simp add: check_array_def leaky_matrix_def)
  have y: "list_all is_num (map Num [1, 2, 3, 4, 5])" by simp
  have f: "\<not> isl (always_fit n False X y)" for n X y by (simp add: always_fit_def)
  have m: "\<not> isl (no_metrics y q)" for y q by (simp add: no_metrics_def)
  obtain p' results where tr:
    "train_with_hyperparameter_tuning always_fit example_predict no_metrics False
        (init_predictor False) (leaky_matrix 10) (map Num [1, 2, 3, 4, 5]) False
       = Inr (p', results)"
    using train_total[where fit = always_fit and metrics = no_metrics and tune = False
        and predict = example_predict and has_xgboost = False and p = "init_predictor False",
        OF f m c y]
    by blast
  from scaler_fit_on_all_rows[OF tr] c
  have "scaler p' = Some (scaler_fit [[1], [2], [3], [4], [10]])
     \<and> split_idx (length (leaky_matrix 10)) = 4"
    by (auto simp: leaky_matrix_def)
  with tr show ?thesis by blast
qed

subsection \<open>C9: saving and loading\<close>

text \<open>
  C9.  Provided \<open>joblib.load\<close> returns the object that \<open>joblib.dump\<close> was given,
  loading the saved bundle into a fresh instance yields, for a trained predictor, the
  same results of \<open>predict_next_month\<close> and of the ensemble prediction on every
  input, and for a detector the same results of \<open>calculate_fraud_scores\<close>.
\<close>

theorem save_load_round_trip:
  assumes "\<And>b. load (dump b) = Some b" and "\<And>b. fd_load (fd_dump b) = Some b"
  shows "(is_trained p \<longrightarrow>
            (\<exists>q. load_models load (init_predictor has_xgboost) path (save_models dump p path fs)
                   = Inr q
               \<and> predict_next_month predict q monthly_df = predict_next_month predict p monthly_df
               \<and> ensemble_predict predict q X_scaled = ensemble_predict predict p X_scaled))
       \<and> (\<exists>d. fd_load_models fd_load init_detector path' (fd_save_models fd_dump det path' fs')
                 = Inr d
             \<and> calculate_fraud_scores decision_function d df X
                 = calculate_fraud_scores decision_function det df X)"
proof (intro conjI impI)
  assume t: "is_trained p"
  have "load_models load (init_predictor has_xgboost) path (save_models dump p path fs) = Inr p"
    using t by (simp add: load_models_def save_models_def assms(1) init_predictor_def)
  then show "\<exists>q. load_models load (init_predictor has_xgboost) path (save_models dump p path fs)
                   = Inr q
               \<and> predict_next_month predict q monthly_df = predict_next_month predict p monthly_df
               \<and> ensemble_predict predict q X_scaled = ensemble_predict predict p X_scaled"
    by simp
next
  have "fd_load_models fd_load init_detector path' (fd_save_models fd_dump det path' fs')
          = Inr (det\<lparr>fd_is_trained := True\<rparr>)"
    by (simp add: fd_load_models_def fd_save_models_def assms(2) init_detector_def)
  moreover have "calculate_fraud_scores decision_function (det\<lparr>fd_is_trained := True\<rparr>) df X
                 = calculate_fraud_scores decision_function det df X"
    by (simp add: calculate_fraud_scores_def cong: sum.case_cong option.case_cong)
  ultimately show "\<exists>d. fd_load_models fd_load init_detector path' (fd_save_models fd_dump det path' fs')
                 = Inr d
             \<and> calculate_fraud_scores decision_function d df X
                 = calculate_fraud_scores decision_function det df X"
    by simp
qed

theorem save_load_round_trip_witness:
  "is_trained example_predictor
   \<and> (\<exists>q. load_models Some (init_predictor False) ''opam_expense_models.joblib''
            (save_models (\<lambda>b. b) example_predictor ''opam_expense_models.joblib'' Map.empty)
          = Inr q
        \<and> predict_next_month example_predict q example_monthly =
            Inr \<lparr>predictions = [(''linear'', 1), (''ridge'', 2), (''ensemble'', 2 / 5)],
                 confidence = 6667 / 100, trend = ''increasing'', best_model = ''linear''\<rparr>)
   \<and> (\<exists>d. fd_load_models Some init_detector ''opam_fraud_models.joblib''
            (fd_save_models (\<lambda>b. b) example_detector ''opam_fraud_models.joblib'' Map.empty)
          = Inr d
        \<and> calculate_fraud_scores example_decision_function d
             [boundary_row, boundary_row] [[Num 1], [Num 3]]
           = Inr [score_row boundary_row 100,
                  score_row boundary_row (100 - 2 / (2 + 1 / 10 ^ 10) * 100)])"
proof -
  have t: "is_trained example_predictor" by (simp add: example_predictor_def)
  note rt = save_load_round_trip[of Some "\<lambda>b. b" Some "\<lambda>b. b" example_predictor False
      "''opam_expense_models.joblib''" Map.empty example_predict example_monthly "[]"
      "''opam_fraud_models.joblib''" example_detector Map.empty example_decision_function
      "[boundary_row, boundary_row]" "[[Num 1], [Num 3]]"]
  from rt t obtain q where q:
    "load_models Some (init_predictor False) ''opam_expense_models.joblib''
       (save_models (\<lambda>b. b) example_predictor ''opam_expense_models.joblib'' Map.empty) = Inr q"
    "predict_next_month example_predict q example_monthly
       = predict_next_month example_predict example_predictor example_monthly"
    by auto
  from rt obtain d where d:
    "fd_load_models Some init_detector ''opam_fraud_models.joblib''
       (fd_save_models (\<lambda>b. b) example_detector ''opam_fraud_models.joblib'' Map.empty) = Inr d"
    "calculate_fraud_scores example_decision_function d
       [boundary_row, boundary_row] [[Num 1], [Num 3]]
     = calculate_fraud_scores example_decision_function example_detector
       [boundary_row, boundary_row] [[Num 1], [Num 3]]"
    by auto
  show ?thesis
    using t q d unfolding example_prediction example_scores by blast
qed

lemma is_num_sample_std: "is_num (sample_std xs) \<longleftrightarrow> 2 \<le> length xs"
  by (auto simp: sample_std_def)

lemma is_num_series_mean: "is_num (series_mean xs) \<longleftrightarrow> xs \<noteq> []"
  by (simp add: series_mean_def)

lemma is_num_series_max: "is_num (series_max xs) \<longleftrightarrow> xs \<noteq> []"
  by (simp add: series_max_def split: list.splits)

lemma is_num_series_min: "is_num (series_min xs) \<longleftrightarrow> xs \<noteq> []"
  by (simp add: series_min_def split: list.splits)

lemma is_num_pct_step: "p \<noteq> 0 \<Longrightarrow> is_num (pct_step x (Num p))"
  by (simp add: pct_step_def)

lemma is_num_flag: "is_num (flag b)"
  by (simp add: flag_def)

lemma late_cells_num:
  assumes i: "6 \<le> i" "i < length (month_keys df)"
    and two: "\<forall>k \<in> set (month_keys df). 2 \<le> length (month_amounts df k)"
    and pos: "\<forall>t \<in> set df. 0 < amount t"
    and mem: "(name, c) \<in> set (monthly_frame df)"
  shows "is_num (c ! i)"
proof -
  define keys where "keys = month_keys df"
  define groups where "groups = map (month_amounts df) keys"
  define T where "T = map sum_list groups"
  have N: "i < length keys" "length groups = length keys" "length T = length keys"
    using i by (simp_all add: keys_def groups_def T_def)
  have g2: "2 \<le> length (groups ! j)" if "j < length keys" for j
    using two that by (simp add: groups_def keys_def)
  have Tpos: "0 < T ! j" if "j < length keys" for j
  proof -
    have "groups ! j \<noteq> []" using g2[OF that] by auto
    moreover have "\<forall>x \<in> set (groups ! j). 0 < x"
      using pos that by (auto simp: groups_def month_amounts_def)
    ultimately show ?thesis using that N by (simp add: T_def sum_list_pos_real)
  qed
  have T0: "T ! j \<noteq> 0" if "j < length keys" for j using Tpos[OF that] by simp
  have frame: "monthly_frame df =
      [(''year_month'', map (\<lambda>k. Num (real k)) keys),
          (''total_amount'', map Num T),
          (''avg_amount'', map Num (map mean groups)),
          (''transaction_count'', map Num (map (\<lambda>g. real (length g)) groups)),
          (''std_amount'', map sample_std groups),
          (''max_amount'', map series_max groups),
          (''min_amount'', map series_min groups),
          (''num_transactions'', map Num (map (\<lambda>g. real (length g)) groups)),
          (''date'', map (\<lambda>k. Num (real k)) keys),
          (''year'', map (\<lambda>k. Num (real (k div 12))) keys),
          (''month'', map (\<lambda>m. Num (real m)) (map (\<lambda>k. k mod 12 + 1) keys)),
          (''quarter'', map (\<lambda>q. Num (real q)) (map (\<lambda>m. (m - 1) div 3 + 1) (map (\<lambda>k. k mod 12 + 1) keys))),
          (''is_q4'', map (\<lambda>q. flag (q = 4)) (map (\<lambda>m. (m - 1) div 3 + 1) (map (\<lambda>k. k mod 12 + 1) keys))),
          (''is_year_start'', map (\<lambda>m. flag (m \<le> 2)) (map (\<lambda>k. k mod 12 + 1) keys)),
          (''is_year_end'', map (\<lambda>m. flag (11 \<le> m)) (map (\<lambda>k. k mod 12 + 1) keys))]
         @ map (\<lambda>lag. (''lag_'' @ str_digit lag, shift lag (map Num T))) [1..<7]
         @ concat (map (\<lambda>w. [(''rolling_mean_'' @ str_digit w, rolling w series_mean T),
                               (''rolling_std_'' @ str_digit w, rolling w sample_std T),
                               (''rolling_max_'' @ str_digit w, rolling w series_max T),
                               (''rolling_min_'' @ str_digit w, rolling w series_min T)])
                     [2, 3, 6])
         @ [(''mom_growth'', pct_change T),
            (''mom_growth_lag1'', shift 1 (pct_change T)),
            (''avg_txn_lag1'', shift 1 (map Num (map mean groups))),
            (''txn_count_lag1'', shift 1 (map Num (map (\<lambda>g. real (length g)) groups)))]"
    unfolding monthly_frame_def Let_def keys_def groups_def T_def by (rule refl)
  have w2: "take 2 (drop (i - Suc 0) T) \<noteq> []" "take 3 (drop (i - 2) T) \<noteq> []"
      "take 6 (drop (i - 5) T) \<noteq> []"
    using i N by auto
  have l2: "2 \<le> length (take 2 (drop (i - Suc 0) T))" "2 \<le> length (take 3 (drop (i - 2) T))"
      "2 \<le> length (take 6 (drop (i - 5) T))"
    using i N by auto
  from mem show ?thesis
    unfolding frame
    using i N g2[of i] T0[of i] T0[of "i - 1"] T0[of "i - Suc (Suc 0)"] w2 l2
    by (auto simp: nth_shift nth_rolling nth_pct_change length_pct_change is_num_flag
        is_num_sample_std is_num_series_mean is_num_series_max is_num_series_min is_num_pct_step)
qed

lemma names_dropna: "map fst (dropna M) = map fst M"
  by (simp add: dropna_def Let_def case_prod_unfold comp_def)

lemma engineered_cells:
  assumes two: "\<forall>k \<in> set (month_keys df). 2 \<le> length (month_amounts df k)"
      and pos: "\<forall>t \<in> set df. 0 < amount t"
  shows "nrows (engineer_features df) = length (month_keys df) - 6"
    and "x \<in> set (engineer_features df) \<Longrightarrow>
           list_all is_num (snd x) \<and> length (snd x) = length (month_keys df) - 6"
proof -
  let ?F = "monthly_frame df" and ?N = "length (month_keys df)"
  have iff: "(\<not> row_has_na ?F i) = (6 \<le> i)" if "i \<in> set [0..<?N]" for i
    using that early_rows_dropped[of i df] late_rows_kept[OF _ _ two pos, of i]
    by (cases "i < 6") auto
  have keep: "filter (\<lambda>i. \<not> row_has_na ?F i) [0..<?N] = filter (\<lambda>i. 6 \<le> i) [0..<?N]"
    by (rule filter_cong[OF refl iff])
  show "nrows (engineer_features df) = ?N - 6"
    by (simp add: engineer_features_def nrows_dropna monthly_frame_nonempty
        nrows_monthly_frame keep length_filter_ge)
  assume "x \<in> set (engineer_features df)"
  then obtain name c where c: "(name, c) \<in> set ?F"
    and x: "x = (name, map (\<lambda>i. c ! i) (filter (\<lambda>i. 6 \<le> i) [0..<?N]))"
    by (auto simp: engineer_features_def dropna_def Let_def nrows_monthly_frame keep)
  have "is_num (c ! i)" if "i \<in> set (filter (\<lambda>i. 6 \<le> i) [0..<?N])" for i
    using that late_cells_num[OF _ _ two pos c, of i] by simp
  then show "list_all is_num (snd x) \<and> length (snd x) = ?N - 6"
    by (simp add: x list_all_iff length_filter_ge)
qed

lemma select_columns_total:
  assumes "\<forall>n \<in> set names. n \<in> fst ` set F"
  shows "\<exists>cols. select_columns F names = Inr cols \<and> length cols = length names
           \<and> set cols \<subseteq> snd ` set F"
  using assms
proof (induction names)
  case Nil
  then show ?case by simp
next
  case (Cons n names)
  then obtain cols where cols: "select_columns F names = Inr cols" "length cols = length names"
      "set cols \<subseteq> snd ` set F"
    by auto
  from Cons.prems have "n \<in> fst ` set F" by simp
  then obtain c where c: "map_of F n = Some c"
    by (cases "map_of F n") (auto simp: map_of_eq_None_iff)
  then have "(n, c) \<in> set F" by (rule map_of_SomeD)
  then have "c \<in> snd ` set F" by force
  with cols c show ?case by simp
qed

lemma monthly_frame_names:
  "''total_amount'' \<in> fst ` set (monthly_frame df)"
  "\<exists>c. (''avg_amount'', c) \<in> set (monthly_frame df)"
  by (auto simp: monthly_frame_def Let_def)

lemma engineered_names:
  "''total_amount'' \<in> fst ` set (engineer_features df)"
  "\<exists>c. (''avg_amount'', c) \<in> set (engineer_features df)"
proof -
  have s: "fst ` set (engineer_features df) = fst ` set (monthly_frame df)"
    using names_dropna[of "monthly_frame df"]
    by (metis engineer_features_def set_map)
  show "''total_amount'' \<in> fst ` set (engineer_features df)"
    by (simp add: s monthly_frame_names)
  have "''avg_amount'' \<in> fst ` set (monthly_frame df)"
    using monthly_frame_names(2)[of df] by force
  then have "''avg_amount'' \<in> fst ` set (engineer_features df)" by (simp add: s)
  then show "\<exists>c. (''avg_amount'', c) \<in> set (engineer_features df)" by auto
qed

lemma forecast_pipeline_succeeds:
  assumes f: "\<And>n X y. \<not> isl (fit n tune X y)" and m: "\<And>y q. \<not> isl (metrics y q)"
    and two: "\<forall>k \<in> set (month_keys df). 2 \<le> length (month_amounts df k)"
    and pos: "\<forall>t \<in> set df. 0 < amount t"
    and big: "6 < length (month_keys df)"
  shows "\<not> isl (fst (forecast_pipeline fit predict metrics dump h (engineer_features df)
                      db_path tune fs))"
proof -
  define F where "F = engineer_features df"
  define n where "n = length (month_keys df) - 6"
  have n0: "0 < n" using big by (simp add: n_def)
  have cells: "list_all is_num c \<and> length c = n" if "c \<in> snd ` set F" for c
    using that engineered_cells(2)[OF two pos] unfolding F_def n_def by auto
  have nr: "nrows F = n" unfolding F_def n_def by (rule engineered_cells(1)[OF two pos])
  obtain y where y: "frame_col F ''total_amount'' = Some y"
    using engineered_names(1)[of df] unfolding F_def frame_col_def
    by (cases "map_of (engineer_features df) ''total_amount''") (auto simp: map_of_eq_None_iff)
  have "(''total_amount'', y) \<in> set F"
    using y unfolding frame_col_def by (rule map_of_SomeD)
  then have "y \<in> snd ` set F" by force
  then have ynum: "list_all is_num y" using cells by simp
  define feats where "feats = filter (\<lambda>(name, c). name \<notin> set exclude_cols) F"
  have feats_sub: "set feats \<subseteq> set F" by (auto simp: feats_def)
  obtain ca where "(''avg_amount'', ca) \<in> set F"
    using engineered_names(2)[of df] unfolding F_def by blast
  then have "(''avg_amount'', ca) \<in> set feats"
    by (simp add: feats_def exclude_cols_def)
  then have feats_ne: "feats \<noteq> []" by auto
  have pd: "prepare_data F = Inr (map fst feats, frame_values feats, y)"
    by (simp add: prepare_data_def y feats_def Let_def)
  have fcol: "list_all is_num c \<and> length c = n" if "(name, c) \<in> set feats" for name c
  proof -
    have "c \<in> snd ` set F" using that feats_sub by force
    then show ?thesis by (rule cells)
  qed
  have nrf: "nrows feats = n"
  proof (cases feats)
    case Nil
    then show ?thesis using feats_ne by simp
  next
    case (Cons a rest)
    obtain name c where a: "a = (name, c)" by (cases a)
    have "(name, c) \<in> set feats" by (simp add: Cons a)
    then have "length c = n" using fcol by blast
    then show ?thesis by (simp add: nrows_def Cons a)
  qed
  define X where "X = frame_values feats"
  have Xlen: "length X = n" by (simp add: X_def frame_values_def nrf)
  have Xne: "X \<noteq> []" using Xlen n0 by auto
  have rows: "length r = length feats \<and> list_all is_num r" if "r \<in> set X" for r
  proof -
    from that obtain i where i: "i < n" and r: "r = map (\<lambda>(name, c). c ! i) feats"
      by (auto simp: X_def frame_values_def nrf)
    have "is_num (c ! i)" if "(name, c) \<in> set feats" for name c
      using fcol[OF that] i by (simp add: list_all_length)
    then show ?thesis by (auto simp: r list_all_iff)
  qed
  have ca: "check_array X = Inr (map (map num_of) X)"
  proof -
    have "r \<noteq> []" if "r \<in> set X" for r
      using rows[OF that] feats_ne by auto
    then have "\<not> list_ex (\<lambda>r. r = []) X"
      unfolding list_ex_iff by blast
    moreover have "list_all (list_all is_num) X" using rows by (simp add: list_all_iff)
    ultimately show ?thesis using Xne by (simp add: check_array_def)
  qed
  define Xr where "Xr = map (map num_of) X"
  define p0 :: "'a predictor" where
    "p0 = (init_predictor h)\<lparr>feature_columns := map fst feats\<rparr>"
  obtain ms results where tr:
    "train_with_hyperparameter_tuning fit predict metrics h p0 X y tune
       = Inr (p0\<lparr>models := ms, scaler := Some (scaler_fit Xr), is_trained := True\<rparr>, results)"
    using train_total[where fit = fit and metrics = metrics and tune = tune
        and predict = predict and has_xgboost = h and p = p0, OF f m ca[folded Xr_def] ynum]
    by blast
  define p' where "p' = p0\<lparr>models := ms, scaler := Some (scaler_fit Xr), is_trained := True\<rparr>"
  have "\<forall>nm \<in> set (map fst feats). nm \<in> fst ` set F" using feats_sub by auto
  from select_columns_total[OF this] obtain cols where
    sel: "select_columns F (map fst feats) = Inr cols" and
    clen: "length cols = length feats" and csub: "set cols \<subseteq> snd ` set F"
    by auto
  have lr: "last_row_values F cols = [map last cols]"
    using nr n0 by (simp add: last_row_values_def)
  have dim: "length (sc_mean (scaler_fit Xr)) = length feats"
  proof -
    obtain r rest where X: "X = r # rest" using Xne by (cases X) auto
    have "length r = length feats" using rows[of r] by (simp add: X)
    then show ?thesis by (simp add: scaler_fit_def Xr_def X Let_def)
  qed
  have lastnum: "is_num (last c)" if "c \<in> set cols" for c
  proof -
    have c: "list_all is_num c \<and> length c = n" using that csub cells by blast
    then have "c \<noteq> []" using n0 by auto
    then have "last c \<in> set c" by simp
    then show ?thesis using c by (simp add: list_all_iff)
  qed
  have cne: "cols \<noteq> []" using clen feats_ne by auto
  have st: "scaler_transform (Some (scaler_fit Xr)) [map last cols]
      = Inr [scaler_transform_row (scaler_fit Xr) (map num_of (map last cols))]"
    using lastnum cne by (simp add: scaler_transform_def check_array_def dim clen list_all_iff)
  have "\<exists>label. trend_of F = Inr label"
    by (simp add: trend_of_def y ynum Let_def)
  then obtain label where tl: "trend_of F = Inr label" by blast
  have "\<exists>res. predict_next_month predict p' F = Inr res"
    by (simp add: predict_next_month_def p'_def p0_def sel lr st tl Let_def)
  then obtain res where pr: "predict_next_month predict p' F = Inr res" by blast
  show ?thesis
    unfolding F_def[symmetric]
    by (simp add: forecast_pipeline_def pd X_def[symmetric] p0_def[symmetric] tr
        p'_def[symmetric] pr Let_def)
qed

lemma nine_months_keys:
  "month_keys nine_months = [24288, 24289, 24290, 24291, 24292, 24293, 24294, 24295, 24296]"
  by (simp add: month_keys_def nine_months_def example_txn_simps)

lemma nine_months_groups:
  "\<forall>k \<in> set (month_keys nine_months). 2 \<le> length (month_amounts nine_months k)"
  unfolding nine_months_keys
  by (simp add: month_amounts_def nine_months_def example_txn_simps)

lemma nine_months_positive: "\<forall>t \<in> set nine_months. 0 < amount t"
  by (simp add: nine_months_def example_txn_simps)

lemma nine_months_rows: "nrows (engineer_features nine_months) = 3"
  using engineered_cells(1)[OF nine_months_groups nine_months_positive]
  by (simp add: nine_months_keys)

lemma nine_months_loaded: "load_data_from_db nine_months None = Inr nine_months"
  by (simp add: load_data_from_db_def nine_months_def)

lemma nine_months_length: "length nine_months = 18"
  by (simp add: nine_months_def)

subsection \<open>C6: the insufficient-data guards of the orchestration\<close>

text \<open>
  C6, counterexample.  Eighteen transactions, two in each of nine consecutive months,
  leave three months after feature engineering, fewer than the six of the claim.  The
  forecast pipeline does not answer with an error: its guard asks for three months, and
  with learners that fit without raising the result is a success.
\<close>

theorem three_months_are_accepted:
  "nrows (engineer_features nine_months) = 3
   \<and> \<not> isl (fst (run_expense_prediction always_fit example_predict no_metrics (\<lambda>b. b) False
                    nine_months ''opam.db'' None False Map.empty))"
proof -
  have f: "\<not> isl (always_fit n False X y)" for n X y by (simp add: always_fit_def)
  have m: "\<not> isl (no_metrics y q)" for y q by (simp add: no_metrics_def)
  have big: "6 < length (month_keys nine_months)" by (simp add: nine_months_keys)
  have "run_expense_prediction always_fit example_predict no_metrics (\<lambda>b. b) False
                    nine_months ''opam.db'' None False Map.empty
      = forecast_pipeline always_fit example_predict no_metrics (\<lambda>b. b) False
          (engineer_features nine_months) ''opam.db'' False Map.empty"
    by (simp add: run_expense_prediction_def nine_months_loaded nine_months_length
        nine_months_rows)
  then show ?thesis
    using forecast_pipeline_succeeds[where fit = always_fit and metrics = no_metrics
        and tune = False, OF f m nine_months_groups nine_months_positive big]
      nine_months_rows
    by simp
qed

text \<open>
  C6, as amended.  When no transaction is found, both pipelines return the error of the
  loader.  With fewer than 10 transactions both return their structured error.  With at
  least 10 transactions the forecast pipeline returns the structured error
  \<open>Need at least 3 months of data\<close> exactly when fewer than 3 months remain after
  feature engineering; otherwise its result is that of the steps after the guards, and
  the result of the fraud pipeline is that of \<open>detect_fraud\<close> (an exception raised
  there is returned as a structured error).
\<close>

theorem insufficient_data_guards:
  "(load_data_from_db table uid = Inl e \<longrightarrow>
      fst (run_expense_prediction fit predict metrics dump has_xgboost table db_path uid tune fs)
        = Inl e
    \<and> fst (run_fraud_detection fit_forest decision_function fd_dump table db_path uid tune fs')
        = Inl e)
   \<and> (load_data_from_db table uid = Inr df \<longrightarrow>
        (length df < 10 \<longrightarrow>
           fst (run_expense_prediction fit predict metrics dump has_xgboost table db_path uid tune fs)
             = Inl ''Need at least 10 transactions for prediction''
         \<and> fst (run_fraud_detection fit_forest decision_function fd_dump table db_path uid tune fs')
             = Inl ''Need at least 10 transactions for fraud detection'')
      \<and> (10 \<le> length df \<and> nrows (engineer_features df) < 3 \<longrightarrow>
           fst (run_expense_prediction fit predict metrics dump has_xgboost table db_path uid tune fs)
             = Inl ''Need at least 3 months of data'')
      \<and> (10 \<le> length df \<and> 3 \<le> nrows (engineer_features df) \<longrightarrow>
           run_expense_prediction fit predict metrics dump has_xgboost table db_path uid tune fs
             = forecast_pipeline fit predict metrics dump has_xgboost (engineer_features df)
                 db_path tune fs)
      \<and> (10 \<le> length df \<longrightarrow>
           fst (run_fraud_detection fit_forest decision_function fd_dump table db_path uid tune fs')
             = map_sum id (\<lambda>(det, df_scored). (df_scored, replace_db ''_fraud_models.joblib'' db_path))
                 (detect_fraud fit_forest decision_function init_detector df tune)))"
  by (auto simp: run_expense_prediction_def run_fraud_detection_def Let_def
      split: sum.splits prod.splits)

theorem insufficient_data_guards_witness:
  "load_data_from_db nine_months None = Inr nine_months
   \<and> 10 \<le> length nine_months
   \<and> 3 \<le> nrows (engineer_features nine_months)
   \<and> run_expense_prediction always_fit example_predict no_metrics (\<lambda>b. b) False
        nine_months ''opam.db'' None False Map.empty
      = forecast_pipeline always_fit example_predict no_metrics (\<lambda>b. b) False
          (engineer_features nine_months) ''opam.db'' False Map.empty
   \<and> load_data_from_db example_fraud_df None = Inr example_fraud_df
   \<and> length example_fraud_df < 10
   \<and> fst (run_expense_prediction always_fit example_predict no_metrics (\<lambda>b. b) False
        example_fraud_df ''opam.db'' None False Map.empty)
      = Inl ''Need at least 10 transactions for prediction''"
proof -
  have a: "10 \<le> length nine_months" "3 \<le> nrows (engineer_features nine_months)"
    by (simp_all add: nine_months_length nine_months_rows)
  have b: "load_data_from_db example_fraud_df None = Inr example_fraud_df"
    "length example_fraud_df < 10"
    by (simp_all add: load_data_from_db_def example_fraud_df_def)
  have "run_expense_prediction always_fit example_predict no_metrics (\<lambda>b. b) False
        nine_months ''opam.db'' None False Map.empty
      = forecast_pipeline always_fit example_predict no_metrics (\<lambda>b. b) False
          (engineer_features nine_months) ''opam.db'' False Map.empty"
    using insufficient_data_guards[of nine_months None _ always_fit example_predict no_metrics
        "\<lambda>b. b" False "''opam.db''" False Map.empty _ _ _ _ nine_months]
      nine_months_loaded a
    by blast
  moreover have "fst (run_expense_prediction always_fit example_predict no_metrics (\<lambda>b. b) False
        example_fraud_df ''opam.db'' None False Map.empty)
      = Inl ''Need at least 10 transactions for prediction''"
    using insufficient_data_guards[of example_fraud_df None _ always_fit example_predict
        no_metrics "\<lambda>b. b" False "''opam.db''" False Map.empty _ _ _ _ example_fraud_df] b
    by blast
  ultimately show ?thesis using nine_months_loaded a b by blast
qed

end
